theory Spec2Isabelle
  imports Complex_Main "HOL-Library.Word" "HOL-Library.AList"
begin

section \<open>Values, documents and identifiers\<close>

text \<open>
  The store's identifier is a 12-byte ObjectId. \<open>str\<close> renders it as 24 lower-case
  hexadecimal characters and the constructor \<open>ObjectId(s)\<close> reads such a string back.
\<close>

datatype oid = Oid "96 word"

text \<open>
  The values a document holds, on the Python side and in the store alike. Python's int and
  float are one constructor: the handlers pass numbers through without computing on them, and
  the store compares numbers by value.
\<close>

datatype val =
    VNull
  | VBool bool
  | VNum real
  | VStr string
  | VOid oid
  | VList "val list"
  | VDoc "(string \<times> val) list"

type_synonym doc = "(string \<times> val) list"

text \<open>Python dict operations on a document: \<open>k in d\<close>, \<open>d[k] = v\<close>, \<open>d.pop(k)\<close>.\<close>

abbreviation has_key :: "doc \<Rightarrow> string \<Rightarrow> bool" where
  "has_key d k \<equiv> (map_of d k \<noteq> None)"

abbreviation dict_set :: "string \<Rightarrow> val \<Rightarrow> doc \<Rightarrow> doc" where
  "dict_set k v d \<equiv> AList.update k v d"

abbreviation dict_pop :: "string \<Rightarrow> doc \<Rightarrow> doc" where
  "dict_pop k d \<equiv> AList.delete k d"

text \<open>What a handler can raise: an \<open>HTTPException\<close> with status code and detail, or one of
  the Python exceptions that would surface as a server error.\<close>

datatype error =
    HTTPException nat string
  | InvalidId
  | TypeError
  | AttributeError
  | KeyError

subsection \<open>Hexadecimal identifiers\<close>

definition hex_val :: "char \<Rightarrow> nat option" where
  "hex_val c = map_of
     [(CHR ''0'', 0), (CHR ''1'', 1), (CHR ''2'', 2), (CHR ''3'', 3), (CHR ''4'', 4),
      (CHR ''5'', 5), (CHR ''6'', 6), (CHR ''7'', 7), (CHR ''8'', 8), (CHR ''9'', 9),
      (CHR ''a'', 10), (CHR ''b'', 11), (CHR ''c'', 12), (CHR ''d'', 13), (CHR ''e'', 14),
      (CHR ''f'', 15),
      (CHR ''A'', 10), (CHR ''B'', 11), (CHR ''C'', 12), (CHR ''D'', 13), (CHR ''E'', 14),
      (CHR ''F'', 15)] c"

fun hex_parse :: "string \<Rightarrow> nat \<Rightarrow> nat option" where
  "hex_parse [] acc = Some acc"
| "hex_parse (c # cs) acc =
     (case hex_val c of None \<Rightarrow> None | Some v \<Rightarrow> hex_parse cs (16 * acc + v))"

definition hex_digit :: "nat \<Rightarrow> char" where
  "hex_digit n = ''0123456789abcdef'' ! n"

primrec hex_render :: "nat \<Rightarrow> nat \<Rightarrow> string" where
  "hex_render 0 n = []"
| "hex_render (Suc k) n = hex_render k (n div 16) @ [hex_digit (n mod 16)]"

text \<open>Modelled from the spec: \<open>ObjectId.is_valid\<close> of the store's driver is not part of the
  repository; the spec gives the identifier format as 24 hexadecimal characters.\<close>

definition is_valid :: "string \<Rightarrow> bool" where
  "is_valid s = (length s = 24 \<and> hex_parse s 0 \<noteq> None)"

text \<open>\<open>ObjectId(s)\<close> raises \<open>InvalidId\<close> on a string \<open>is_valid\<close> refuses.\<close>

definition ObjectId :: "string \<Rightarrow> error + oid" where
  "ObjectId s =
     (if length s = 24 then
        (case hex_parse s 0 of None \<Rightarrow> Inl InvalidId | Some n \<Rightarrow> Inr (Oid (of_nat n)))
      else Inl InvalidId)"

fun str_oid :: "oid \<Rightarrow> string" where
  "str_oid (Oid w) = hex_render 24 (unat w)"

text \<open>
  Python's \<open>str\<close> on a document value. On an ObjectId it is the hexadecimal rendering and on
  a string the string itself; the rendering of every other value (numbers, containers) is
  left to the parameter \<open>other\<close>, so that every result below holds whatever it is.
\<close>

definition py_str :: "(val \<Rightarrow> string) \<Rightarrow> val \<Rightarrow> string" where
  "py_str other v = (case v of VOid i \<Rightarrow> str_oid i | VStr s \<Rightarrow> s | _ \<Rightarrow> other v)"

text \<open>Python truthiness of a document value.\<close>

fun truthy :: "val \<Rightarrow> bool" where
  "truthy VNull = False"
| "truthy (VBool b) = b"
| "truthy (VNum r) = (r \<noteq> 0)"
| "truthy (VStr s) = (s \<noteq> [])"
| "truthy (VOid i) = True"
| "truthy (VList xs) = (xs \<noteq> [])"
| "truthy (VDoc d) = (d \<noteq> [])"

section \<open>The document store\<close>

text \<open>
  The store is a connected database: named collections, each the list of its documents in
  insertion order, and the counter the engine draws fresh identifiers from. The field
  \<open>trace\<close> records every call made to the database, in order, so that the order of checks
  and the absence of a call can be stated.
\<close>

datatype db_call =
    FindOne string oid
  | InsertOne string doc
  | Find string
  | Aggregate string

record store =
  collections :: "string \<Rightarrow> doc list"
  next_oid :: nat
  trace :: "db_call list"

text \<open>The value a query or a join reads under a field: a missing field reads as null.\<close>

definition get_field :: "doc \<Rightarrow> string \<Rightarrow> val" where
  "get_field d k = (case map_of d k of None \<Rightarrow> VNull | Some v \<Rightarrow> v)"

text \<open>The store's equality match: the values are equal, or one is an array holding the
  other.\<close>

definition eq_match :: "val \<Rightarrow> val \<Rightarrow> bool" where
  "eq_match l f =
     (l = f \<or> (case l of VList xs \<Rightarrow> f \<in> set xs | _ \<Rightarrow> False)
            \<or> (case f of VList ys \<Rightarrow> l \<in> set ys | _ \<Rightarrow> False))"

text \<open>\<open>db[c].find_one({"_id": i})\<close>: the first document of the collection whose \<open>_id\<close>
  matches, or \<open>None\<close>.\<close>

definition find_one :: "string \<Rightarrow> oid \<Rightarrow> store \<Rightarrow> doc option \<times> store" where
  "find_one c i st =
     (List.find (\<lambda>d. eq_match (VOid i) (get_field d ''_id'')) (collections st c),
      st\<lparr>trace := trace st @ [FindOne c i]\<rparr>)"

text \<open>Modelled from the spec: \<open>create_document\<close> of the repository's \<open>database\<close> module is
  not among the sources. The spec: it performs a single atomic insert into the named
  collection and returns the newly assigned identifier as a plain string.\<close>

definition create_document :: "string \<Rightarrow> doc \<Rightarrow> store \<Rightarrow> string \<times> store" where
  "create_document c d st =
     (let i = Oid (of_nat (next_oid st)) in
      (str_oid i,
       st\<lparr>collections := (collections st)(c := collections st c @ [(''_id'', VOid i) # d]),
          next_oid := Suc (next_oid st),
          trace := trace st @ [InsertOne c d]\<rparr>))"

text \<open>Modelled from the spec: \<open>get_documents\<close> of the \<open>database\<close> module is not among the
  sources. The spec: it returns all documents of the collection in insertion order, the
  storage-native identifier field still present.\<close>

definition get_documents :: "string \<Rightarrow> store \<Rightarrow> doc list \<times> store" where
  "get_documents c st = (collections st c, st\<lparr>trace := trace st @ [Find c]\<rparr>)"

subsection \<open>Aggregation stages\<close>

text \<open>\<open>$lookup\<close>: under the key \<open>as\<close>, the array of the foreign collection's documents
  whose \<open>foreignField\<close> matches the input document's \<open>localField\<close>.\<close>

definition lookup :: "doc list \<Rightarrow> string \<Rightarrow> string \<Rightarrow> string \<Rightarrow> doc \<Rightarrow> doc" where
  "lookup foreign localField foreignField as d =
     dict_set as
       (VList (map VDoc
          (filter (\<lambda>f. eq_match (get_field d localField) (get_field f foreignField)) foreign)))
       d"

text \<open>\<open>$unwind\<close>: one output document per element of the array under \<open>path\<close>. A missing or
  null field or an empty array gives no output, unless \<open>preserveNullAndEmptyArrays\<close> keeps
  the document (an empty array then leaves the field out); a value that is not an array
  counts as a single element.\<close>

definition unwind :: "string \<Rightarrow> bool \<Rightarrow> doc \<Rightarrow> doc list" where
  "unwind path preserve d =
     (case map_of d path of
        None \<Rightarrow> (if preserve then [d] else [])
      | Some VNull \<Rightarrow> (if preserve then [d] else [])
      | Some (VList xs) \<Rightarrow>
          (if xs = [] then (if preserve then [dict_pop path d] else [])
           else map (\<lambda>x. dict_set path x d) xs)
      | Some v \<Rightarrow> [d])"

text \<open>\<open>db[c].aggregate(pipeline)\<close>: the stages run in order over the collection's
  documents; the collections are only read.\<close>

datatype stage =
    Lookup string string string string
  | Unwind string bool

fun run_stage :: "(string \<Rightarrow> doc list) \<Rightarrow> stage \<Rightarrow> doc list \<Rightarrow> doc list" where
  "run_stage cs (Lookup from localField foreignField as) ds =
     map (lookup (cs from) localField foreignField as) ds"
| "run_stage cs (Unwind path preserve) ds = concat (map (unwind path preserve) ds)"

definition aggregate :: "string \<Rightarrow> stage list \<Rightarrow> store \<Rightarrow> doc list \<times> store" where
  "aggregate c pipeline st =
     (fold (run_stage (collections st)) pipeline (collections st c),
      st\<lparr>trace := trace st @ [Aggregate c]\<rparr>)"

section \<open>Request models\<close>

text \<open>
  A request body reaches a handler as an instance of its input model. The keyword arguments
  the instance is built from are typed as the class declares them; a field that has a default
  may be omitted.
\<close>

datatype 'a supplied = Omitted | Given 'a

fun or_default :: "'a \<Rightarrow> 'a supplied \<Rightarrow> 'a" where
  "or_default d Omitted = d"
| "or_default d (Given v) = v"

fun opt :: "('a \<Rightarrow> val) \<Rightarrow> 'a option \<Rightarrow> val" where
  "opt f None = VNull"
| "opt f (Some x) = f x"

subsection \<open>\<open>PlayerIn\<close>\<close>

record PlayerIn =
  player_name :: string
  player_position :: string
  player_age :: "int option"
  player_nationality :: "string option"
  player_current_club_id :: "string option"
  player_height_cm :: "int option"
  player_preferred_foot :: "string option"
  player_bio :: "string option"
  player_skills :: "string list option"
  player_market_value :: "real option"

record PlayerIn_kwargs =
  kw_player_name :: string
  kw_player_position :: string
  kw_player_age :: "int option supplied"
  kw_player_nationality :: "string option supplied"
  kw_player_current_club_id :: "string option supplied"
  kw_player_height_cm :: "int option supplied"
  kw_player_preferred_foot :: "string option supplied"
  kw_player_bio :: "string option supplied"
  kw_player_skills :: "string list option supplied"
  kw_player_market_value :: "real option supplied"

definition PlayerIn_init :: "PlayerIn_kwargs \<Rightarrow> PlayerIn" where
  "PlayerIn_init kw =
     \<lparr>player_name = kw_player_name kw,
      player_position = kw_player_position kw,
      player_age = or_default None (kw_player_age kw),
      player_nationality = or_default None (kw_player_nationality kw),
      player_current_club_id = or_default None (kw_player_current_club_id kw),
      player_height_cm = or_default None (kw_player_height_cm kw),
      player_preferred_foot = or_default None (kw_player_preferred_foot kw),
      player_bio = or_default None (kw_player_bio kw),
      player_skills = or_default (Some []) (kw_player_skills kw),
      player_market_value = or_default None (kw_player_market_value kw)\<rparr>"

definition PlayerIn_model_dump :: "PlayerIn \<Rightarrow> doc" where
  "PlayerIn_model_dump p =
     [(''name'', VStr (player_name p)),
      (''position'', VStr (player_position p)),
      (''age'', opt (\<lambda>n. VNum (of_int n)) (player_age p)),
      (''nationality'', opt VStr (player_nationality p)),
      (''current_club_id'', opt VStr (player_current_club_id p)),
      (''height_cm'', opt (\<lambda>n. VNum (of_int n)) (player_height_cm p)),
      (''preferred_foot'', opt VStr (player_preferred_foot p)),
      (''bio'', opt VStr (player_bio p)),
      (''skills'', opt (\<lambda>xs. VList (map VStr xs)) (player_skills p)),
      (''market_value'', opt VNum (player_market_value p))]"

subsection \<open>\<open>ClubIn\<close>\<close>

record ClubIn =
  club_name :: string
  club_league :: "string option"
  club_country :: "string option"
  club_budget :: "real option"
  club_stadium :: "string option"
  club_bio :: "string option"

record ClubIn_kwargs =
  kw_club_name :: string
  kw_club_league :: "string option supplied"
  kw_club_country :: "string option supplied"
  kw_club_budget :: "real option supplied"
  kw_club_stadium :: "string option supplied"
  kw_club_bio :: "string option supplied"

definition ClubIn_init :: "ClubIn_kwargs \<Rightarrow> ClubIn" where
  "ClubIn_init kw =
     \<lparr>club_name = kw_club_name kw,
      club_league = or_default None (kw_club_league kw),
      club_country = or_default None (kw_club_country kw),
      club_budget = or_default (Some 0) (kw_club_budget kw),
      club_stadium = or_default None (kw_club_stadium kw),
      club_bio = or_default None (kw_club_bio kw)\<rparr>"

definition ClubIn_model_dump :: "ClubIn \<Rightarrow> doc" where
  "ClubIn_model_dump c =
     [(''name'', VStr (club_name c)),
      (''league'', opt VStr (club_league c)),
      (''country'', opt VStr (club_country c)),
      (''budget'', opt VNum (club_budget c)),
      (''stadium'', opt VStr (club_stadium c)),
      (''bio'', opt VStr (club_bio c))]"

subsection \<open>\<open>ListingIn\<close>\<close>

record ListingIn =
  listing_player_id :: string
  listing_from_club_id :: "string option"
  listing_asking_price :: real
  listing_status :: string

record ListingIn_kwargs =
  kw_listing_player_id :: string
  kw_listing_from_club_id :: "string option supplied"
  kw_listing_asking_price :: real
  kw_listing_status :: "string supplied"

definition ListingIn_init :: "ListingIn_kwargs \<Rightarrow> ListingIn" where
  "ListingIn_init kw =
     \<lparr>listing_player_id = kw_listing_player_id kw,
      listing_from_club_id = or_default None (kw_listing_from_club_id kw),
      listing_asking_price = kw_listing_asking_price kw,
      listing_status = or_default ''open'' (kw_listing_status kw)\<rparr>"

definition ListingIn_model_dump :: "ListingIn \<Rightarrow> doc" where
  "ListingIn_model_dump l =
     [(''player_id'', VStr (listing_player_id l)),
      (''from_club_id'', opt VStr (listing_from_club_id l)),
      (''asking_price'', VNum (listing_asking_price l)),
      (''status'', VStr (listing_status l))]"

subsection \<open>\<open>OfferIn\<close>\<close>

record OfferIn =
  offer_listing_id :: string
  offer_club_id :: string
  offer_offer_amount :: real
  offer_status :: string
  offer_message :: "string option"

record OfferIn_kwargs =
  kw_offer_listing_id :: string
  kw_offer_club_id :: string
  kw_offer_offer_amount :: real
  kw_offer_status :: "string supplied"
  kw_offer_message :: "string option supplied"

definition OfferIn_init :: "OfferIn_kwargs \<Rightarrow> OfferIn" where
  "OfferIn_init kw =
     \<lparr>offer_listing_id = kw_offer_listing_id kw,
      offer_club_id = kw_offer_club_id kw,
      offer_offer_amount = kw_offer_offer_amount kw,
      offer_status = or_default ''pending'' (kw_offer_status kw),
      offer_message = or_default None (kw_offer_message kw)\<rparr>"

definition OfferIn_model_dump :: "OfferIn \<Rightarrow> doc" where
  "OfferIn_model_dump f =
     [(''listing_id'', VStr (offer_listing_id f)),
      (''club_id'', VStr (offer_club_id f)),
      (''offer_amount'', VNum (offer_offer_amount f)),
      (''status'', VStr (offer_status f)),
      (''message'', opt VStr (offer_message f))]"

subsection \<open>The declared schemas (\<open>schemas.py\<close>)\<close>

text \<open>The bounds the collection schemas declare on the same fields: \<open>ge\<close> and \<open>le\<close> on a
  field that may be null constrain the value when there is one.\<close>

fun in_bounds :: "('a \<Rightarrow> bool) \<Rightarrow> 'a option \<Rightarrow> bool" where
  "in_bounds P None = True"
| "in_bounds P (Some x) = P x"

definition Player_schema :: "PlayerIn \<Rightarrow> bool" where
  "Player_schema p =
     (in_bounds (\<lambda>a. 8 \<le> a \<and> a \<le> 60) (player_age p) \<and>
      in_bounds (\<lambda>h. 100 \<le> h \<and> h \<le> 230) (player_height_cm p) \<and>
      in_bounds (\<lambda>m. 0 \<le> m) (player_market_value p))"

definition Club_schema :: "ClubIn \<Rightarrow> bool" where
  "Club_schema c = in_bounds (\<lambda>b. 0 \<le> b) (club_budget c)"

definition Transferlisting_schema :: "ListingIn \<Rightarrow> bool" where
  "Transferlisting_schema l = (0 \<le> listing_asking_price l)"

definition Transferoffer_schema :: "OfferIn \<Rightarrow> bool" where
  "Transferoffer_schema f = (0 \<le> offer_offer_amount f)"

section \<open>The endpoints (\<open>main.py\<close>)\<close>

datatype IdModel = IdModel string

text \<open>\<open>serialize\<close>: an empty document is returned as it is; otherwise the copy loses \<open>_id\<close>
  and gains its string under \<open>id\<close>.\<close>

definition serialize :: "(val \<Rightarrow> string) \<Rightarrow> doc \<Rightarrow> doc" where
  "serialize other doc =
     (if doc = [] then doc
      else (case map_of doc ''_id'' of
              None \<Rightarrow> doc
            | Some v \<Rightarrow> dict_set ''id'' (VStr (py_str other v)) (dict_pop ''_id'' doc)))"

definition create_player :: "PlayerIn \<Rightarrow> store \<Rightarrow> (error + IdModel) \<times> store" where
  "create_player player st =
     (let player_dict = PlayerIn_model_dump player;
          (new_id, st') = create_document ''player'' player_dict st
      in (Inr (IdModel new_id), st'))"

definition list_players :: "(val \<Rightarrow> string) \<Rightarrow> store \<Rightarrow> doc list \<times> store" where
  "list_players other st =
     (let (docs, st') = get_documents ''player'' st in (map (serialize other) docs, st'))"

definition create_club :: "ClubIn \<Rightarrow> store \<Rightarrow> (error + IdModel) \<times> store" where
  "create_club club st =
     (let (new_id, st') = create_document ''club'' (ClubIn_model_dump club) st
      in (Inr (IdModel new_id), st'))"

definition list_clubs :: "(val \<Rightarrow> string) \<Rightarrow> store \<Rightarrow> doc list \<times> store" where
  "list_clubs other st =
     (let (docs, st') = get_documents ''club'' st in (map (serialize other) docs, st'))"

text \<open>\<open>if not player\<close>: \<open>find_one\<close> gave \<open>None\<close>, or a document that is empty.\<close>

fun not_found :: "doc option \<Rightarrow> bool" where
  "not_found None = True"
| "not_found (Some d) = (d = [])"

definition create_listing :: "ListingIn \<Rightarrow> store \<Rightarrow> (error + IdModel) \<times> store" where
  "create_listing listing st =
     (if \<not> is_valid (listing_player_id listing) then
        (Inl (HTTPException 400 ''Invalid player_id''), st)
      else if (case listing_from_club_id listing of
                 None \<Rightarrow> False
               | Some c \<Rightarrow> c \<noteq> [] \<and> \<not> is_valid c) then
        (Inl (HTTPException 400 ''Invalid from_club_id''), st)
      else
        (case ObjectId (listing_player_id listing) of
           Inl e \<Rightarrow> (Inl e, st)
         | Inr i \<Rightarrow>
             (let (player, st1) = find_one ''player'' i st in
              if not_found player then (Inl (HTTPException 404 ''Player not found''), st1)
              else
                (let (new_id, st2) =
                       create_document ''transferlisting'' (ListingIn_model_dump listing) st1
                 in (Inr (IdModel new_id), st2)))))"

definition create_offer :: "OfferIn \<Rightarrow> store \<Rightarrow> (error + IdModel) \<times> store" where
  "create_offer offer st =
     (if \<not> is_valid (offer_listing_id offer) \<or> \<not> is_valid (offer_club_id offer) then
        (Inl (HTTPException 400 ''Invalid ids''), st)
      else
        (case ObjectId (offer_listing_id offer) of
           Inl e \<Rightarrow> (Inl e, st)
         | Inr li \<Rightarrow>
             (let (listing, st1) = find_one ''transferlisting'' li st in
              if not_found listing then (Inl (HTTPException 404 ''Listing not found''), st1)
              else
                (case ObjectId (offer_club_id offer) of
                   Inl e \<Rightarrow> (Inl e, st1)
                 | Inr ci \<Rightarrow>
                     (let (club, st2) = find_one ''club'' ci st1 in
                      if not_found club then (Inl (HTTPException 404 ''Club not found''), st2)
                      else
                        (let (new_id, st3) =
                               create_document ''transferoffer'' (OfferIn_model_dump offer) st2
                         in (Inr (IdModel new_id), st3)))))))"

subsection \<open>The joined reads\<close>

text \<open>Python's \<open>p in s\<close> on strings.\<close>

fun is_substr :: "string \<Rightarrow> string \<Rightarrow> bool" where
  "is_substr p [] = (p = [])"
| "is_substr p (c # cs) = (take (length p) (c # cs) = p \<or> is_substr p cs)"

text \<open>\<open>"_id" in x\<close>: a key of a dict, an element of a list, a substring of a string; any
  other value is not iterable.\<close>

fun contains_id :: "val \<Rightarrow> error + bool" where
  "contains_id (VDoc p) = Inr (has_key p ''_id'')"
| "contains_id (VList xs) = Inr (VStr ''_id'' \<in> set xs)"
| "contains_id (VStr s) = Inr (is_substr ''_id'' s)"
| "contains_id v = Inl TypeError"

text \<open>\<open>x["id"] = str(x.pop("_id"))\<close>: only a dict has such a \<open>pop\<close>.\<close>

fun flatten_id :: "(val \<Rightarrow> string) \<Rightarrow> val \<Rightarrow> error + val" where
  "flatten_id other (VDoc p) =
     (case map_of p ''_id'' of
        None \<Rightarrow> Inl KeyError
      | Some v \<Rightarrow> Inr (VDoc (dict_set ''id'' (VStr (py_str other v)) (dict_pop ''_id'' p))))"
| "flatten_id other (VList xs) = Inl TypeError"
| "flatten_id other v = Inl AttributeError"

text \<open>\<open>if k in d and "_id" in d[k]: d[k]["id"] = str(d[k].pop("_id"))\<close>\<close>

definition flatten_joined :: "(val \<Rightarrow> string) \<Rightarrow> string \<Rightarrow> doc \<Rightarrow> error + doc" where
  "flatten_joined other k d =
     (case map_of d k of
        None \<Rightarrow> Inr d
      | Some x \<Rightarrow>
          (case contains_id x of
             Inl e \<Rightarrow> Inl e
           | Inr False \<Rightarrow> Inr d
           | Inr True \<Rightarrow>
               (case flatten_id other x of
                  Inl e \<Rightarrow> Inl e
                | Inr x' \<Rightarrow> Inr (dict_set k x' d))))"

text \<open>A \<open>for\<close> loop that appends one result per item and stops at the first exception.\<close>

fun for_each :: "('a \<Rightarrow> error + 'b) \<Rightarrow> 'a list \<Rightarrow> error + 'b list" where
  "for_each f [] = Inr []"
| "for_each f (x # xs) =
     (case f x of
        Inl e \<Rightarrow> Inl e
      | Inr y \<Rightarrow> (case for_each f xs of Inl e \<Rightarrow> Inl e | Inr ys \<Rightarrow> Inr (y # ys)))"

definition listing_item :: "(val \<Rightarrow> string) \<Rightarrow> doc \<Rightarrow> error + doc" where
  "listing_item other d0 =
     (let d = serialize other d0 in
      case flatten_joined other ''player'' d of
        Inl e \<Rightarrow> Inl e
      | Inr d1 \<Rightarrow>
          (if has_key d1 ''from_club'' \<and> truthy (get_field d1 ''from_club'')
           then flatten_joined other ''from_club'' d1
           else Inr d1))"

definition list_listings :: "(val \<Rightarrow> string) \<Rightarrow> store \<Rightarrow> (error + doc list) \<times> store" where
  "list_listings other st =
     (let (docs, st') =
            aggregate ''transferlisting''
              [Lookup ''player'' ''player_id'' ''_id'' ''player'',
               Unwind ''player'' False,
               Lookup ''club'' ''from_club_id'' ''_id'' ''from_club'',
               Unwind ''from_club'' True] st
      in (for_each (listing_item other) docs, st'))"

definition offer_item :: "(val \<Rightarrow> string) \<Rightarrow> doc \<Rightarrow> error + doc" where
  "offer_item other d0 =
     (let d = serialize other d0 in
      case flatten_joined other ''listing'' d of
        Inl e \<Rightarrow> Inl e
      | Inr d1 \<Rightarrow> flatten_joined other ''club'' d1)"

definition list_offers :: "(val \<Rightarrow> string) \<Rightarrow> store \<Rightarrow> (error + doc list) \<times> store" where
  "list_offers other st =
     (let (docs, st') =
            aggregate ''transferoffer''
              [Lookup ''transferlisting'' ''listing_id'' ''_id'' ''listing'',
               Unwind ''listing'' False,
               Lookup ''club'' ''club_id'' ''_id'' ''club'',
               Unwind ''club'' False] st
      in (for_each (offer_item other) docs, st'))"

text \<open>The store before any request: every collection empty.\<close>

definition empty_store :: store where
  "empty_store = \<lparr>collections = (\<lambda>c. []), next_oid = 1, trace = []\<rparr>"

section \<open>Scenarios and auxiliary predicates\<close>

text \<open>The second check of \<open>create_listing\<close> lets the request through: \<open>from_club_id\<close> is
  absent, empty or well-formed.\<close>

definition from_club_format_ok :: "ListingIn \<Rightarrow> bool" where
  "from_club_format_ok l =
     (case listing_from_club_id l of None \<Rightarrow> True | Some c \<Rightarrow> c = [] \<or> is_valid c)"

text \<open>The requests of the spec's scenario: a club, a player with no club reference, a listing
  of a player by a club, an offer of a club on a listing.\<close>

definition roma :: ClubIn where
  "roma = ClubIn_init
     \<lparr>kw_club_name = ''Roma'', kw_club_league = Omitted, kw_club_country = Omitted,
      kw_club_budget = Given (Some 0), kw_club_stadium = Omitted, kw_club_bio = Omitted\<rparr>"

definition player_x :: PlayerIn where
  "player_x = PlayerIn_init
     \<lparr>kw_player_name = ''X'', kw_player_position = ''Forward'', kw_player_age = Omitted,
      kw_player_nationality = Omitted, kw_player_current_club_id = Omitted,
      kw_player_height_cm = Omitted, kw_player_preferred_foot = Omitted,
      kw_player_bio = Omitted, kw_player_skills = Omitted,
      kw_player_market_value = Omitted\<rparr>"

definition listing_of :: "string \<Rightarrow> string option \<Rightarrow> ListingIn" where
  "listing_of p c = ListingIn_init
     \<lparr>kw_listing_player_id = p, kw_listing_from_club_id = Given c,
      kw_listing_asking_price = 1000, kw_listing_status = Omitted\<rparr>"

definition offer_of :: "string \<Rightarrow> string \<Rightarrow> OfferIn" where
  "offer_of l c = OfferIn_init
     \<lparr>kw_offer_listing_id = l, kw_offer_club_id = c, kw_offer_offer_amount = 900,
      kw_offer_status = Omitted, kw_offer_message = Omitted\<rparr>"

text \<open>The stores the scenario goes through: after the club, after the player, after the
  listing.\<close>

definition store_c :: store where
  "store_c = snd (create_club roma empty_store)"

definition store_cp :: store where
  "store_cp = snd (create_player player_x store_c)"

definition store_cpl :: store where
  "store_cpl = snd (create_listing (listing_of (str_oid (Oid 2)) (Some (str_oid (Oid 1)))) store_cp)"

text \<open>Requests outside the declared rules: a player of age 5, a club with a negative
  budget, a listing with a negative price and a status outside the enumeration; and two offers,
  each with one malformed identifier.\<close>

definition player_age5 :: PlayerIn where
  "player_age5 = PlayerIn_init
     \<lparr>kw_player_name = ''X'', kw_player_position = ''Forward'', kw_player_age = Given (Some 5),
      kw_player_nationality = Omitted, kw_player_current_club_id = Omitted,
      kw_player_height_cm = Omitted, kw_player_preferred_foot = Omitted,
      kw_player_bio = Omitted, kw_player_skills = Omitted,
      kw_player_market_value = Omitted\<rparr>"

definition club_in_debt :: ClubIn where
  "club_in_debt = ClubIn_init
     \<lparr>kw_club_name = ''Roma'', kw_club_league = Omitted, kw_club_country = Omitted,
      kw_club_budget = Given (Some (- 1)), kw_club_stadium = Omitted, kw_club_bio = Omitted\<rparr>"

definition listing_bad_status :: ListingIn where
  "listing_bad_status = ListingIn_init
     \<lparr>kw_listing_player_id = str_oid (Oid 2), kw_listing_from_club_id = Omitted,
      kw_listing_asking_price = - 5, kw_listing_status = Given ''sold''\<rparr>"

definition offer_bad_listing :: OfferIn where
  "offer_bad_listing = offer_of ''not-an-id'' (str_oid (Oid 1))"

definition offer_bad_club :: OfferIn where
  "offer_bad_club = offer_of (str_oid (Oid 3)) ''not-an-id''"

text \<open>A club created without a budget.\<close>

definition lazio :: ClubIn where
  "lazio = ClubIn_init
     \<lparr>kw_club_name = ''Lazio'', kw_club_league = Omitted, kw_club_country = Omitted,
      kw_club_budget = Omitted, kw_club_stadium = Omitted, kw_club_bio = Omitted\<rparr>"

text \<open>A store whose listing and offer hold their references as ObjectIds, so that the joins
  of the read pipelines find their documents.\<close>

definition joined_store :: store where
  "joined_store =
     \<lparr>collections = (\<lambda>c. [])
        (''club'' := [[(''_id'', VOid (Oid 1)), (''name'', VStr ''Roma'')]],
         ''player'' := [[(''_id'', VOid (Oid 2)), (''name'', VStr ''X'')]],
         ''transferlisting'' :=
           [[(''_id'', VOid (Oid 3)), (''player_id'', VOid (Oid 2)),
             (''from_club_id'', VOid (Oid 1)), (''asking_price'', VNum 1000),
             (''status'', VStr ''open'')]],
         ''transferoffer'' :=
           [[(''_id'', VOid (Oid 4)), (''listing_id'', VOid (Oid 3)),
             (''club_id'', VOid (Oid 1)), (''offer_amount'', VNum 900)]]),
      next_oid = 5, trace = []\<rparr>"

text \<open>The listing as the pipeline of \<open>GET /listings\<close> joins it in that store, and as the
  endpoint returns it.\<close>

definition joined_listing :: doc where
  "joined_listing =
     [(''_id'', VOid (Oid 3)), (''player_id'', VOid (Oid 2)), (''from_club_id'', VOid (Oid 1)),
      (''asking_price'', VNum 1000), (''status'', VStr ''open''),
      (''player'', VDoc [(''_id'', VOid (Oid 2)), (''name'', VStr ''X'')]),
      (''from_club'', VDoc [(''_id'', VOid (Oid 1)), (''name'', VStr ''Roma'')])]"

definition listing_response :: doc where
  "listing_response =
     [(''player_id'', VOid (Oid 2)), (''from_club_id'', VOid (Oid 1)),
      (''asking_price'', VNum 1000), (''status'', VStr ''open''),
      (''player'', VDoc [(''name'', VStr ''X''), (''id'', VStr (str_oid (Oid 2)))]),
      (''from_club'', VDoc [(''name'', VStr ''Roma''), (''id'', VStr (str_oid (Oid 1)))]),
      (''id'', VStr (str_oid (Oid 3)))]"

text \<open>
  The flattening of identifiers, in the words of the spec: the result \<open>r\<close> of a stored
  document \<open>d\<close> has no \<open>_id\<close>; where \<open>d\<close> has one, \<open>r\<close> holds its string under \<open>id\<close>; every
  other field is as in \<open>d\<close>.
\<close>

definition flattened :: "(val \<Rightarrow> string) \<Rightarrow> doc \<Rightarrow> doc \<Rightarrow> bool" where
  "flattened other d r \<longleftrightarrow>
     \<not> has_key r ''_id'' \<and>
     (case map_of d ''_id'' of
        None \<Rightarrow> map_of r ''id'' = map_of d ''id''
      | Some v \<Rightarrow> map_of r ''id'' = Some (VStr (py_str other v))) \<and>
     (\<forall>k. k \<noteq> ''_id'' \<and> k \<noteq> ''id'' \<longrightarrow> map_of r k = map_of d k)"

text \<open>A field that holds a document is flattened in its turn; any other value, or the
  absence of the field, is kept.\<close>

definition flattened_sub :: "(val \<Rightarrow> string) \<Rightarrow> val option \<Rightarrow> val option \<Rightarrow> bool" where
  "flattened_sub other x y =
     (case x of
        None \<Rightarrow> y = None
      | Some (VDoc p) \<Rightarrow> (\<exists>q. y = Some (VDoc q) \<and> flattened other p q)
      | Some v \<Rightarrow> y = Some v)"

text \<open>A joined result: flattened at the top, and under each joined key.\<close>

definition flattened_joined :: "(val \<Rightarrow> string) \<Rightarrow> string list \<Rightarrow> doc \<Rightarrow> doc \<Rightarrow> bool" where
  "flattened_joined other joined d r \<longleftrightarrow>
     \<not> has_key r ''_id'' \<and>
     (case map_of d ''_id'' of
        None \<Rightarrow> map_of r ''id'' = map_of d ''id''
      | Some v \<Rightarrow> map_of r ''id'' = Some (VStr (py_str other v))) \<and>
     (\<forall>k. k \<noteq> ''_id'' \<and> k \<noteq> ''id'' \<and> k \<notin> set joined \<longrightarrow> map_of r k = map_of d k) \<and>
     list_all (\<lambda>k. flattened_sub other (map_of d k) (map_of r k)) joined"

section \<open>Basic facts\<close>

lemma ObjectId_valid: "is_valid s \<Longrightarrow> \<exists>i. ObjectId s = Inr i"
  by (auto simp: is_valid_def ObjectId_def)

lemma find_one_collections: "collections (snd (find_one c i st)) = collections st"
  by (simp add: find_one_def)

lemma find_one_trace: "trace (snd (find_one c i st)) = trace st @ [FindOne c i]"
  by (simp add: find_one_def)

section \<open>The round trip through \<open>POST /listings\<close> and \<open>GET /listings\<close>\<close>

lemma valid_oid1: "is_valid (str_oid (Oid 1))"
  by code_simp
lemma valid_oid2: "is_valid (str_oid (Oid 2))"
  by code_simp
lemma valid_oid3: "is_valid (str_oid (Oid 3))"
  by code_simp
lemma ObjectId_oid1: "ObjectId (str_oid (Oid 1)) = Inr (Oid 1)"
  by code_simp
lemma ObjectId_oid2: "ObjectId (str_oid (Oid 2)) = Inr (Oid 2)"
  by code_simp
lemma ObjectId_oid3: "ObjectId (str_oid (Oid 3)) = Inr (Oid 3)"
  by code_simp
lemma str_oid1_nonempty: "str_oid (Oid 1) \<noteq> []"
  by code_simp

lemma store_c_eq:
  "store_c = \<lparr>collections = (\<lambda>c. [])(''club'' := [(''_id'', VOid (Oid 1)) # ClubIn_model_dump roma]),
              next_oid = 2, trace = [InsertOne ''club'' (ClubIn_model_dump roma)]\<rparr>"
  by (simp add: store_c_def create_club_def create_document_def empty_store_def Let_def
      del: str_oid.simps)

lemma store_cp_eq:
  "store_cp = \<lparr>collections = (\<lambda>c. [])
                 (''club'' := [(''_id'', VOid (Oid 1)) # ClubIn_model_dump roma],
                  ''player'' := [(''_id'', VOid (Oid 2)) # PlayerIn_model_dump player_x]),
              next_oid = 3,
              trace = [InsertOne ''club'' (ClubIn_model_dump roma),
                       InsertOne ''player'' (PlayerIn_model_dump player_x)]\<rparr>"
  by (simp add: store_cp_def store_c_eq create_player_def create_document_def Let_def
      del: str_oid.simps)

lemma create_listing_cp:
  "create_listing (listing_of (str_oid (Oid 2)) (Some (str_oid (Oid 1)))) store_cp =
    (Inr (IdModel (str_oid (Oid 3))),
     \<lparr>collections = (\<lambda>c. [])
                 (''club'' := [(''_id'', VOid (Oid 1)) # ClubIn_model_dump roma],
                  ''player'' := [(''_id'', VOid (Oid 2)) # PlayerIn_model_dump player_x],
                  ''transferlisting'' := [(''_id'', VOid (Oid 3)) #
                      ListingIn_model_dump (listing_of (str_oid (Oid 2)) (Some (str_oid (Oid 1))))]),
              next_oid = 4,
              trace = [InsertOne ''club'' (ClubIn_model_dump roma),
                       InsertOne ''player'' (PlayerIn_model_dump player_x),
                       FindOne ''player'' (Oid 2),
                       InsertOne ''transferlisting''
                         (ListingIn_model_dump (listing_of (str_oid (Oid 2)) (Some (str_oid (Oid 1)))))]\<rparr>)"
  by (simp add: store_cp_eq create_listing_def create_document_def find_one_def Let_def
        listing_of_def ListingIn_init_def valid_oid1 valid_oid2 ObjectId_oid2 str_oid1_nonempty
        get_field_def eq_match_def
      del: str_oid.simps)

lemma store_cpl_eq:
  "store_cpl = \<lparr>collections = (\<lambda>c. [])
                 (''club'' := [(''_id'', VOid (Oid 1)) # ClubIn_model_dump roma],
                  ''player'' := [(''_id'', VOid (Oid 2)) # PlayerIn_model_dump player_x],
                  ''transferlisting'' := [(''_id'', VOid (Oid 3)) #
                      ListingIn_model_dump (listing_of (str_oid (Oid 2)) (Some (str_oid (Oid 1))))]),
              next_oid = 4,
              trace = [InsertOne ''club'' (ClubIn_model_dump roma),
                       InsertOne ''player'' (PlayerIn_model_dump player_x),
                       FindOne ''player'' (Oid 2),
                       InsertOne ''transferlisting''
                         (ListingIn_model_dump (listing_of (str_oid (Oid 2)) (Some (str_oid (Oid 1)))))]\<rparr>"
  unfolding store_cpl_def create_listing_cp by simp

lemma list_listings_cpl: "fst (list_listings other store_cpl) = Inr []"
  by (simp add: store_cpl_eq list_listings_def aggregate_def lookup_def unwind_def
        get_field_def eq_match_def listing_of_def ListingIn_init_def ListingIn_model_dump_def
      del: str_oid.simps)

text \<open>
  Claim C1. The claim: after creating a club, a player with no club reference and a listing
  whose \<open>player_id\<close> and \<open>from_club_id\<close> are the identifiers returned for them,
  \<open>GET /listings\<close> holds exactly one entry for the listing, with the player and the club
  nested. The code, run on that scenario from the empty store: the three creations succeed
  and return the identifiers of the club, the player and the listing, and \<open>GET /listings\<close>
  then returns the empty list. The listing stores its references as strings, the \<open>$lookup\<close>
  on \<open>player_id\<close> compares them with the ObjectId under \<open>_id\<close>, finds no player, and the
  \<open>$unwind\<close> of the empty array drops the listing.
\<close>

theorem roundtrip_join_returns_nothing:
  "create_club roma empty_store = (Inr (IdModel (str_oid (Oid 1))), store_c) \<and>
   create_player player_x store_c = (Inr (IdModel (str_oid (Oid 2))), store_cp) \<and>
   create_listing (listing_of (str_oid (Oid 2)) (Some (str_oid (Oid 1)))) store_cp =
     (Inr (IdModel (str_oid (Oid 3))), store_cpl) \<and>
   fst (list_listings other store_cpl) = Inr []"
proof (intro conjI)
  show "create_club roma empty_store = (Inr (IdModel (str_oid (Oid 1))), store_c)"
    by (simp add: store_c_def create_club_def create_document_def empty_store_def Let_def
        del: str_oid.simps)
  show "create_player player_x store_c = (Inr (IdModel (str_oid (Oid 2))), store_cp)"
    by (simp add: store_cp_def store_c_eq create_player_def create_document_def Let_def
        del: str_oid.simps)
  show "create_listing (listing_of (str_oid (Oid 2)) (Some (str_oid (Oid 1)))) store_cp =
     (Inr (IdModel (str_oid (Oid 3))), store_cpl)"
    unfolding store_cpl_eq by (rule create_listing_cp)
  show "fst (list_listings other store_cpl) = Inr []"
    by (rule list_listings_cpl)
qed

section \<open>The handlers, case by case\<close>

lemma find_one_Some_nonempty: "fst (find_one c i st) = Some d \<Longrightarrow> d \<noteq> []"
  by (auto simp: find_one_def find_Some_iff get_field_def eq_match_def)

lemma not_found_find_one: "not_found (fst (find_one c i st)) \<longleftrightarrow> fst (find_one c i st) = None"
  by (cases "fst (find_one c i st)") (auto dest: find_one_Some_nonempty)

lemma from_club_check:
  "(case listing_from_club_id l of None \<Rightarrow> False | Some c \<Rightarrow> c \<noteq> [] \<and> \<not> is_valid c)
     \<longleftrightarrow> \<not> from_club_format_ok l"
  by (simp add: from_club_format_ok_def split: option.splits)

lemma create_listing_bad_player:
  "\<not> is_valid (listing_player_id l) \<Longrightarrow>
   create_listing l st = (Inl (HTTPException 400 ''Invalid player_id''), st)"
  by (simp add: create_listing_def)

lemma create_listing_bad_club:
  "is_valid (listing_player_id l) \<Longrightarrow> \<not> from_club_format_ok l \<Longrightarrow>
   create_listing l st = (Inl (HTTPException 400 ''Invalid from_club_id''), st)"
  by (simp add: create_listing_def from_club_check)

lemma create_listing_missing:
  "is_valid (listing_player_id l) \<Longrightarrow> from_club_format_ok l \<Longrightarrow>
   ObjectId (listing_player_id l) = Inr i \<Longrightarrow> fst (find_one ''player'' i st) = None \<Longrightarrow>
   create_listing l st =
     (Inl (HTTPException 404 ''Player not found''), snd (find_one ''player'' i st))"
  by (simp add: create_listing_def from_club_check split_def Let_def)

lemma create_listing_found:
  "is_valid (listing_player_id l) \<Longrightarrow> from_club_format_ok l \<Longrightarrow>
   ObjectId (listing_player_id l) = Inr i \<Longrightarrow> fst (find_one ''player'' i st) \<noteq> None \<Longrightarrow>
   create_listing l st =
     (Inr (IdModel (fst (create_document ''transferlisting'' (ListingIn_model_dump l)
                          (snd (find_one ''player'' i st))))),
      snd (create_document ''transferlisting'' (ListingIn_model_dump l)
             (snd (find_one ''player'' i st))))"
  by (auto simp: create_listing_def from_club_check split_def Let_def not_found_find_one)

lemma create_offer_bad_ids:
  "\<not> is_valid (offer_listing_id f) \<or> \<not> is_valid (offer_club_id f) \<Longrightarrow>
   create_offer f st = (Inl (HTTPException 400 ''Invalid ids''), st)"
  by (simp add: create_offer_def)

lemma create_offer_missing_listing:
  "is_valid (offer_listing_id f) \<Longrightarrow> is_valid (offer_club_id f) \<Longrightarrow>
   ObjectId (offer_listing_id f) = Inr li \<Longrightarrow>
   fst (find_one ''transferlisting'' li st) = None \<Longrightarrow>
   create_offer f st =
     (Inl (HTTPException 404 ''Listing not found''), snd (find_one ''transferlisting'' li st))"
  by (simp add: create_offer_def split_def Let_def)

lemma create_offer_missing_club:
  "is_valid (offer_listing_id f) \<Longrightarrow> is_valid (offer_club_id f) \<Longrightarrow>
   ObjectId (offer_listing_id f) = Inr li \<Longrightarrow> ObjectId (offer_club_id f) = Inr ci \<Longrightarrow>
   fst (find_one ''transferlisting'' li st) \<noteq> None \<Longrightarrow>
   fst (find_one ''club'' ci (snd (find_one ''transferlisting'' li st))) = None \<Longrightarrow>
   create_offer f st =
     (Inl (HTTPException 404 ''Club not found''),
      snd (find_one ''club'' ci (snd (find_one ''transferlisting'' li st))))"
  by (auto simp: create_offer_def split_def Let_def not_found_find_one)

lemma create_offer_found:
  "is_valid (offer_listing_id f) \<Longrightarrow> is_valid (offer_club_id f) \<Longrightarrow>
   ObjectId (offer_listing_id f) = Inr li \<Longrightarrow> ObjectId (offer_club_id f) = Inr ci \<Longrightarrow>
   fst (find_one ''transferlisting'' li st) \<noteq> None \<Longrightarrow>
   fst (find_one ''club'' ci (snd (find_one ''transferlisting'' li st))) \<noteq> None \<Longrightarrow>
   create_offer f st =
     (Inr (IdModel (fst (create_document ''transferoffer'' (OfferIn_model_dump f)
                      (snd (find_one ''club'' ci (snd (find_one ''transferlisting'' li st))))))),
      snd (create_document ''transferoffer'' (OfferIn_model_dump f)
             (snd (find_one ''club'' ci (snd (find_one ''transferlisting'' li st))))))"
  by (auto simp: create_offer_def split_def Let_def not_found_find_one)

lemma find_one_fst_snd: "fst (find_one c i (snd (find_one c' i' st))) = fst (find_one c i st)"
  by (simp add: find_one_def)

lemma create_listing_rejected_writes_nothing:
  "fst (create_listing l st) = Inl e \<Longrightarrow> collections (snd (create_listing l st)) = collections st"
proof (cases "is_valid (listing_player_id l)")
  case False
  then show ?thesis by (simp add: create_listing_bad_player)
next
  case v: True
  assume e: "fst (create_listing l st) = Inl e"
  show ?thesis
  proof (cases "from_club_format_ok l")
    case False
    with v show ?thesis by (simp add: create_listing_bad_club)
  next
    case ok: True
    from v obtain i where i: "ObjectId (listing_player_id l) = Inr i"
      using ObjectId_valid by blast
    show ?thesis
    proof (cases "fst (find_one ''player'' i st) = None")
      case True
      then show ?thesis
        using v ok i by (simp add: create_listing_missing find_one_collections)
    next
      case False
      then show ?thesis
        using v ok i e by (simp add: create_listing_found)
    qed
  qed
qed

lemma create_offer_rejected_writes_nothing:
  "fst (create_offer f st) = Inl e \<Longrightarrow> collections (snd (create_offer f st)) = collections st"
proof (cases "is_valid (offer_listing_id f) \<and> is_valid (offer_club_id f)")
  case False
  then show ?thesis by (auto simp: create_offer_bad_ids)
next
  case v: True
  assume e: "fst (create_offer f st) = Inl e"
  from v obtain li ci where li: "ObjectId (offer_listing_id f) = Inr li"
    and ci: "ObjectId (offer_club_id f) = Inr ci"
    using ObjectId_valid by blast
  show ?thesis
  proof (cases "fst (find_one ''transferlisting'' li st) = None")
    case True
    then show ?thesis
      using v li by (simp add: create_offer_missing_listing find_one_collections)
  next
    case l: False
    show ?thesis
    proof (cases "fst (find_one ''club'' ci (snd (find_one ''transferlisting'' li st))) = None")
      case True
      then show ?thesis
        using v li ci l by (simp add: create_offer_missing_club find_one_collections)
    next
      case False
      then show ?thesis
        using v li ci l e by (simp add: create_offer_found)
    qed
  qed
qed

section \<open>Order of checks\<close>

lemma create_offer_calls:
  "\<exists>calls. trace (snd (create_offer f st)) = trace st @ calls \<and>
      (calls = [] \<or>
       (is_valid (offer_listing_id f) \<and> is_valid (offer_club_id f) \<and>
        (\<exists>li. ObjectId (offer_listing_id f) = Inr li \<and>
           (calls = [FindOne ''transferlisting'' li] \<or>
            (\<exists>ci. ObjectId (offer_club_id f) = Inr ci \<and>
               (calls = [FindOne ''transferlisting'' li, FindOne ''club'' ci] \<or>
                calls = [FindOne ''transferlisting'' li, FindOne ''club'' ci,
                         InsertOne ''transferoffer'' (OfferIn_model_dump f)]))))))"
proof (cases "is_valid (offer_listing_id f) \<and> is_valid (offer_club_id f)")
  case False
  then have "snd (create_offer f st) = st"
    by (auto simp: create_offer_bad_ids)
  then show ?thesis by simp
next
  case v: True
  then obtain li ci where li: "ObjectId (offer_listing_id f) = Inr li"
    and ci: "ObjectId (offer_club_id f) = Inr ci"
    using ObjectId_valid by blast
  show ?thesis
  proof (cases "fst (find_one ''transferlisting'' li st) = None")
    case True
    then have "trace (snd (create_offer f st)) = trace st @ [FindOne ''transferlisting'' li]"
      using v li by (simp add: create_offer_missing_listing find_one_trace)
    then show ?thesis using v li by auto
  next
    case l: False
    show ?thesis
    proof (cases "fst (find_one ''club'' ci (snd (find_one ''transferlisting'' li st))) = None")
      case True
      then have "trace (snd (create_offer f st)) =
          trace st @ [FindOne ''transferlisting'' li, FindOne ''club'' ci]"
        using v li ci l by (simp add: create_offer_missing_club find_one_trace)
      then show ?thesis using v li ci by auto
    next
      case False
      then have "trace (snd (create_offer f st)) =
          trace st @ [FindOne ''transferlisting'' li, FindOne ''club'' ci,
                      InsertOne ''transferoffer'' (OfferIn_model_dump f)]"
        using v li ci l
        by (simp add: create_offer_found find_one_trace create_document_def Let_def)
      then show ?thesis using v li ci by auto
    qed
  qed
qed

text \<open>
  Claim C5. A \<open>POST /listings\<close> request whose \<open>player_id\<close> is not a well-formed identifier is
  rejected with the 400 error \<open>Invalid player_id\<close> and the store is returned as it was, its
  trace of database calls included: no existence lookup is made. In every run the calls the
  handler adds to the trace are none, or, only once both format checks have passed, the
  lookup of the player, followed or not by the insert of the listing: format checks come
  first, the existence check second, the write last. \<open>create_offer\<close> keeps the same order:
  no call before both identifiers have passed the format check, then the lookup of the
  listing, then that of the club, then the insert.
\<close>

theorem create_listing_format_first:
  "(\<not> is_valid (listing_player_id l) \<longrightarrow>
      create_listing l st = (Inl (HTTPException 400 ''Invalid player_id''), st)) \<and>
   (\<exists>calls. trace (snd (create_listing l st)) = trace st @ calls \<and>
      (calls = [] \<or>
       (is_valid (listing_player_id l) \<and> from_club_format_ok l \<and>
        (\<exists>i. ObjectId (listing_player_id l) = Inr i \<and>
           (calls = [FindOne ''player'' i] \<or>
            calls = [FindOne ''player'' i,
                     InsertOne ''transferlisting'' (ListingIn_model_dump l)]))))) \<and>
   (\<exists>calls. trace (snd (create_offer f st)) = trace st @ calls \<and>
      (calls = [] \<or>
       (is_valid (offer_listing_id f) \<and> is_valid (offer_club_id f) \<and>
        (\<exists>li. ObjectId (offer_listing_id f) = Inr li \<and>
           (calls = [FindOne ''transferlisting'' li] \<or>
            (\<exists>ci. ObjectId (offer_club_id f) = Inr ci \<and>
               (calls = [FindOne ''transferlisting'' li, FindOne ''club'' ci] \<or>
                calls = [FindOne ''transferlisting'' li, FindOne ''club'' ci,
                         InsertOne ''transferoffer'' (OfferIn_model_dump f)])))))))"
proof (intro conjI impI)
  assume "\<not> is_valid (listing_player_id l)"
  then show "create_listing l st = (Inl (HTTPException 400 ''Invalid player_id''), st)"
    by (simp add: create_listing_def)
next
  show "\<exists>calls. trace (snd (create_listing l st)) = trace st @ calls \<and>
      (calls = [] \<or>
       (is_valid (listing_player_id l) \<and> from_club_format_ok l \<and>
        (\<exists>i. ObjectId (listing_player_id l) = Inr i \<and>
           (calls = [FindOne ''player'' i] \<or>
            calls = [FindOne ''player'' i,
                     InsertOne ''transferlisting'' (ListingIn_model_dump l)]))))"
  proof (cases "is_valid (listing_player_id l) \<and> from_club_format_ok l")
    case False
    then have "snd (create_listing l st) = st"
      by (auto simp: create_listing_def from_club_format_ok_def split: option.splits)
    then show ?thesis by simp
  next
    case True
    then obtain i where i: "ObjectId (listing_player_id l) = Inr i"
      using ObjectId_valid by blast
    from True have fc: "\<not> (case listing_from_club_id l of None \<Rightarrow> False
                             | Some c \<Rightarrow> c \<noteq> [] \<and> \<not> is_valid c)"
      by (auto simp: from_club_format_ok_def split: option.splits)
    show ?thesis
    proof (cases "not_found (fst (find_one ''player'' i st))")
      case nf: True
      have "trace (snd (create_listing l st)) = trace st @ [FindOne ''player'' i]"
        using True i fc nf
        by (simp add: create_listing_def find_one_def split_def Let_def)
      then show ?thesis using True i by auto
    next
      case nf: False
      have "trace (snd (create_listing l st)) =
              trace st @ [FindOne ''player'' i,
                          InsertOne ''transferlisting'' (ListingIn_model_dump l)]"
        using True i fc nf
        by (simp add: create_listing_def find_one_def create_document_def split_def Let_def)
      then show ?thesis using True i by auto
    qed
  qed
next
  show "\<exists>calls. trace (snd (create_offer f st)) = trace st @ calls \<and>
      (calls = [] \<or>
       (is_valid (offer_listing_id f) \<and> is_valid (offer_club_id f) \<and>
        (\<exists>li. ObjectId (offer_listing_id f) = Inr li \<and>
           (calls = [FindOne ''transferlisting'' li] \<or>
            (\<exists>ci. ObjectId (offer_club_id f) = Inr ci \<and>
               (calls = [FindOne ''transferlisting'' li, FindOne ''club'' ci] \<or>
                calls = [FindOne ''transferlisting'' li, FindOne ''club'' ci,
                         InsertOne ''transferoffer'' (OfferIn_model_dump f)]))))))"
    by (rule create_offer_calls)
qed

theorem create_listing_format_first_witness:
  "\<not> is_valid ''not-an-id'' \<and>
   create_listing \<lparr>listing_player_id = ''not-an-id'', listing_from_club_id = None,
       listing_asking_price = 1000, listing_status = ''open''\<rparr> empty_store
     = (Inl (HTTPException 400 ''Invalid player_id''), empty_store)"
proof -
  have h: "\<not> is_valid ''not-an-id''" by (simp add: is_valid_def)
  show ?thesis
    using h create_listing_format_first
      [of "\<lparr>listing_player_id = ''not-an-id'', listing_from_club_id = None,
             listing_asking_price = 1000, listing_status = ''open''\<rparr>" empty_store]
    by simp
qed

section \<open>Structural rules and error details\<close>

text \<open>
  Claim C2. The claim: a create request that breaks a declared structural rule (a number out
  of bounds, a status outside its enumeration) is rejected with a validation error before any
  database call, and nothing is written. The code: the input models of the endpoints declare
  no bound and no enumeration, the bounds stand only in \<open>schemas.py\<close>, which no endpoint
  uses. A player of age 5 (the schema says 8 to 60) and a club with budget -1 (the schema says
  at least 0) are inserted, and so is a listing with asking price -5 and status \<open>sold\<close>.
\<close>

theorem out_of_bounds_requests_are_written:
  "\<not> Player_schema player_age5 \<and>
   create_player player_age5 empty_store =
     (Inr (IdModel (str_oid (Oid 1))),
      \<lparr>collections = (\<lambda>c. [])(''player'' :=
           [(''_id'', VOid (Oid 1)) # PlayerIn_model_dump player_age5]),
       next_oid = 2,
       trace = [InsertOne ''player'' (PlayerIn_model_dump player_age5)]\<rparr>) \<and>
   get_field (PlayerIn_model_dump player_age5) ''age'' = VNum 5 \<and>
   \<not> Club_schema club_in_debt \<and>
   create_club club_in_debt empty_store =
     (Inr (IdModel (str_oid (Oid 1))),
      \<lparr>collections = (\<lambda>c. [])(''club'' :=
           [(''_id'', VOid (Oid 1)) # ClubIn_model_dump club_in_debt]),
       next_oid = 2,
       trace = [InsertOne ''club'' (ClubIn_model_dump club_in_debt)]\<rparr>) \<and>
   \<not> Transferlisting_schema listing_bad_status \<and>
   listing_status listing_bad_status \<notin> {''open'', ''under_review'', ''closed''} \<and>
   fst (create_listing listing_bad_status store_cp) = Inr (IdModel (str_oid (Oid 3))) \<and>
   collections (snd (create_listing listing_bad_status store_cp)) ''transferlisting'' =
     [(''_id'', VOid (Oid 3)) # ListingIn_model_dump listing_bad_status]"
proof (intro conjI)
  show "\<not> Player_schema player_age5"
    by (simp add: Player_schema_def player_age5_def PlayerIn_init_def)
  show "create_player player_age5 empty_store =
     (Inr (IdModel (str_oid (Oid 1))),
      \<lparr>collections = (\<lambda>c. [])(''player'' :=
           [(''_id'', VOid (Oid 1)) # PlayerIn_model_dump player_age5]),
       next_oid = 2,
       trace = [InsertOne ''player'' (PlayerIn_model_dump player_age5)]\<rparr>)"
    by (simp add: create_player_def create_document_def empty_store_def Let_def
        del: str_oid.simps)
  show "get_field (PlayerIn_model_dump player_age5) ''age'' = VNum 5"
    by (simp add: get_field_def PlayerIn_model_dump_def player_age5_def PlayerIn_init_def)
  show "\<not> Club_schema club_in_debt"
    by (simp add: Club_schema_def club_in_debt_def ClubIn_init_def)
  show "create_club club_in_debt empty_store =
     (Inr (IdModel (str_oid (Oid 1))),
      \<lparr>collections = (\<lambda>c. [])(''club'' :=
           [(''_id'', VOid (Oid 1)) # ClubIn_model_dump club_in_debt]),
       next_oid = 2,
       trace = [InsertOne ''club'' (ClubIn_model_dump club_in_debt)]\<rparr>)"
    by (simp add: create_club_def create_document_def empty_store_def Let_def
        del: str_oid.simps)
  show "\<not> Transferlisting_schema listing_bad_status"
    by (simp add: Transferlisting_schema_def listing_bad_status_def ListingIn_init_def)
  show "listing_status listing_bad_status \<notin> {''open'', ''under_review'', ''closed''}"
    by (simp add: listing_bad_status_def ListingIn_init_def)
  have run: "create_listing listing_bad_status store_cp =
      (Inr (IdModel (str_oid (Oid 3))),
       snd (create_document ''transferlisting'' (ListingIn_model_dump listing_bad_status)
             (snd (find_one ''player'' (Oid 2) store_cp))))"
    by (simp add: store_cp_eq create_listing_def create_document_def find_one_def Let_def
        listing_bad_status_def ListingIn_init_def valid_oid2 ObjectId_oid2
        get_field_def eq_match_def
      del: str_oid.simps)
  show "fst (create_listing listing_bad_status store_cp) = Inr (IdModel (str_oid (Oid 3)))"
    by (simp add: run)
  show "collections (snd (create_listing listing_bad_status store_cp)) ''transferlisting'' =
     [(''_id'', VOid (Oid 3)) # ListingIn_model_dump listing_bad_status]"
    unfolding run by (simp add: create_document_def find_one_def store_cp_eq Let_def)
qed

lemma not_an_id_invalid: "\<not> is_valid ''not-an-id''"
  by (simp add: is_valid_def)

text \<open>
  Claim C4. The claim: a create request rejected for a malformed identifier gets an error
  naming the field that failed. \<open>create_listing\<close> does so (\<open>Invalid player_id\<close>,
  \<open>Invalid from_club_id\<close>); \<open>create_offer\<close> answers an offer whose \<open>listing_id\<close> alone is
  malformed and one whose \<open>club_id\<close> alone is malformed with the same detail,
  \<open>Invalid ids\<close>, in every store.
\<close>

theorem create_offer_does_not_name_the_field:
  "\<not> is_valid (offer_listing_id offer_bad_listing) \<and>
   is_valid (offer_club_id offer_bad_listing) \<and>
   is_valid (offer_listing_id offer_bad_club) \<and>
   \<not> is_valid (offer_club_id offer_bad_club) \<and>
   fst (create_offer offer_bad_listing st) = Inl (HTTPException 400 ''Invalid ids'') \<and>
   fst (create_offer offer_bad_club st) = Inl (HTTPException 400 ''Invalid ids'')"
  by (simp add: create_offer_def offer_bad_listing_def offer_bad_club_def offer_of_def
      OfferIn_init_def not_an_id_invalid valid_oid1 valid_oid3 del: str_oid.simps)

theorem create_offer_does_not_name_the_field_witness:
  "fst (create_offer offer_bad_listing empty_store) = Inl (HTTPException 400 ''Invalid ids'') \<and>
   fst (create_offer offer_bad_club empty_store) = Inl (HTTPException 400 ''Invalid ids'')"
  using create_offer_does_not_name_the_field [of empty_store] by simp

section \<open>Rejections and writes\<close>

lemma create_document_collections:
  "collections (snd (create_document c d st)) =
     (collections st)(c := collections st c @ [(''_id'', VOid (Oid (of_nat (next_oid st)))) # d])"
  by (simp add: create_document_def Let_def)

lemma find_one_next_oid: "next_oid (snd (find_one c i st)) = next_oid st"
  by (simp add: find_one_def)

lemma find_one_empty: "fst (find_one c i empty_store) = None"
  by (simp add: find_one_def empty_store_def)

text \<open>
  Claim C6, as stated, fails on a request whose \<open>player_id\<close> is well-formed and identifies no
  player while its \<open>from_club_id\<close> is malformed: the format check of \<open>from_club_id\<close> comes
  before the lookup, and the answer is the 400 error \<open>Invalid from_club_id\<close>, not a
  not-found rejection.
\<close>

theorem missing_player_with_bad_club_is_400:
  "is_valid (listing_player_id (listing_of (str_oid (Oid 2)) (Some ''not-an-id''))) \<and>
   ObjectId (listing_player_id (listing_of (str_oid (Oid 2)) (Some ''not-an-id''))) = Inr (Oid 2) \<and>
   fst (find_one ''player'' (Oid 2) empty_store) = None \<and>
   create_listing (listing_of (str_oid (Oid 2)) (Some ''not-an-id'')) empty_store =
     (Inl (HTTPException 400 ''Invalid from_club_id''), empty_store)"
  by (simp add: create_listing_def listing_of_def ListingIn_init_def valid_oid2 ObjectId_oid2
      not_an_id_invalid find_one_empty del: str_oid.simps)

text \<open>
  Claim C6, amended. A \<open>POST /listings\<close> request whose \<open>player_id\<close> is well-formed and
  identifies no player, and whose \<open>from_club_id\<close> is absent, empty or well-formed, is rejected
  with 404 \<open>Player not found\<close>; every rejected \<open>POST /listings\<close> leaves all collections as
  they were. A \<open>POST /offers\<close> request with well-formed identifiers whose listing or club does
  not exist is rejected with 404 (\<open>Listing not found\<close> or \<open>Club not found\<close>), and every
  rejected \<open>POST /offers\<close> leaves all collections as they were.
\<close>

theorem missing_reference_writes_nothing:
  "(is_valid (listing_player_id l) \<and> from_club_format_ok l \<and>
    ObjectId (listing_player_id l) = Inr i \<and> fst (find_one ''player'' i st) = None \<longrightarrow>
      fst (create_listing l st) = Inl (HTTPException 404 ''Player not found'') \<and>
      collections (snd (create_listing l st)) = collections st) \<and>
   (fst (create_listing l st) = Inl e \<longrightarrow>
      collections (snd (create_listing l st)) = collections st) \<and>
   (is_valid (offer_listing_id f) \<and> is_valid (offer_club_id f) \<and>
    ObjectId (offer_listing_id f) = Inr li \<and> ObjectId (offer_club_id f) = Inr ci \<and>
    (fst (find_one ''transferlisting'' li st) = None \<or> fst (find_one ''club'' ci st) = None) \<longrightarrow>
      (fst (create_offer f st) = Inl (HTTPException 404 ''Listing not found'') \<or>
       fst (create_offer f st) = Inl (HTTPException 404 ''Club not found'')) \<and>
      collections (snd (create_offer f st)) = collections st) \<and>
   (fst (create_offer f st) = Inl e' \<longrightarrow>
      collections (snd (create_offer f st)) = collections st)"
proof (intro conjI impI)
  assume h: "is_valid (listing_player_id l) \<and> from_club_format_ok l \<and>
    ObjectId (listing_player_id l) = Inr i \<and> fst (find_one ''player'' i st) = None"
  then have run: "create_listing l st =
      (Inl (HTTPException 404 ''Player not found''), snd (find_one ''player'' i st))"
    by (simp add: create_listing_missing)
  show "fst (create_listing l st) = Inl (HTTPException 404 ''Player not found'')"
    by (simp add: run)
  show "collections (snd (create_listing l st)) = collections st"
    by (simp add: run find_one_collections)
next
  assume "fst (create_listing l st) = Inl e"
  then show "collections (snd (create_listing l st)) = collections st"
    by (rule create_listing_rejected_writes_nothing)
next
  assume "fst (create_offer f st) = Inl e'"
  then show "collections (snd (create_offer f st)) = collections st"
    by (rule create_offer_rejected_writes_nothing)
next
  assume h: "is_valid (offer_listing_id f) \<and> is_valid (offer_club_id f) \<and>
    ObjectId (offer_listing_id f) = Inr li \<and> ObjectId (offer_club_id f) = Inr ci \<and>
    (fst (find_one ''transferlisting'' li st) = None \<or> fst (find_one ''club'' ci st) = None)"
  have res: "fst (create_offer f st) = Inl (HTTPException 404 ''Listing not found'') \<or>
       fst (create_offer f st) = Inl (HTTPException 404 ''Club not found'')"
  proof (cases "fst (find_one ''transferlisting'' li st) = None")
    case True
    with h show ?thesis by (simp add: create_offer_missing_listing)
  next
    case False
    with h have "fst (find_one ''club'' ci (snd (find_one ''transferlisting'' li st))) = None"
      by (simp add: find_one_fst_snd)
    with h False show ?thesis by (simp add: create_offer_missing_club)
  qed
  show "fst (create_offer f st) = Inl (HTTPException 404 ''Listing not found'') \<or>
       fst (create_offer f st) = Inl (HTTPException 404 ''Club not found'')"
    by (rule res)
  from res show "collections (snd (create_offer f st)) = collections st"
    by (auto intro: create_offer_rejected_writes_nothing)
qed

theorem missing_reference_writes_nothing_witness:
  "is_valid (listing_player_id (listing_of (str_oid (Oid 2)) None)) \<and>
   from_club_format_ok (listing_of (str_oid (Oid 2)) None) \<and>
   ObjectId (listing_player_id (listing_of (str_oid (Oid 2)) None)) = Inr (Oid 2) \<and>
   fst (find_one ''player'' (Oid 2) empty_store) = None \<and>
   fst (create_listing (listing_of (str_oid (Oid 2)) None) empty_store) =
     Inl (HTTPException 404 ''Player not found'') \<and>
   collections (snd (create_listing (listing_of (str_oid (Oid 2)) None) empty_store)) =
     collections empty_store \<and>
   is_valid (offer_listing_id (offer_of (str_oid (Oid 3)) (str_oid (Oid 1)))) \<and>
   is_valid (offer_club_id (offer_of (str_oid (Oid 3)) (str_oid (Oid 1)))) \<and>
   ObjectId (offer_listing_id (offer_of (str_oid (Oid 3)) (str_oid (Oid 1)))) = Inr (Oid 3) \<and>
   ObjectId (offer_club_id (offer_of (str_oid (Oid 3)) (str_oid (Oid 1)))) = Inr (Oid 1) \<and>
   fst (find_one ''transferlisting'' (Oid 3) empty_store) = None \<and>
   fst (create_offer (offer_of (str_oid (Oid 3)) (str_oid (Oid 1))) empty_store) =
     Inl (HTTPException 404 ''Listing not found'') \<and>
   collections (snd (create_offer (offer_of (str_oid (Oid 3)) (str_oid (Oid 1))) empty_store)) =
     collections empty_store"
proof -
  let ?l = "listing_of (str_oid (Oid 2)) None"
  let ?f = "offer_of (str_oid (Oid 3)) (str_oid (Oid 1))"
  have l1: "is_valid (listing_player_id ?l)"
    by (simp add: listing_of_def ListingIn_init_def valid_oid2 del: str_oid.simps)
  have l2: "from_club_format_ok ?l"
    by (simp add: from_club_format_ok_def listing_of_def ListingIn_init_def)
  have l3: "ObjectId (listing_player_id ?l) = Inr (Oid 2)"
    by (simp add: listing_of_def ListingIn_init_def ObjectId_oid2 del: str_oid.simps)
  have f1: "is_valid (offer_listing_id ?f)"
    by (simp add: offer_of_def OfferIn_init_def valid_oid3 del: str_oid.simps)
  have f2: "is_valid (offer_club_id ?f)"
    by (simp add: offer_of_def OfferIn_init_def valid_oid1 del: str_oid.simps)
  have f3: "ObjectId (offer_listing_id ?f) = Inr (Oid 3)"
    by (simp add: offer_of_def OfferIn_init_def ObjectId_oid3 del: str_oid.simps)
  have f4: "ObjectId (offer_club_id ?f) = Inr (Oid 1)"
    by (simp add: offer_of_def OfferIn_init_def ObjectId_oid1 del: str_oid.simps)
  have f5: "fst (create_offer ?f empty_store) = Inl (HTTPException 404 ''Listing not found'')"
    using f1 f2 f3 by (simp add: create_offer_missing_listing find_one_empty)
  note t = missing_reference_writes_nothing
      [of ?l "Oid 2" empty_store "HTTPException 404 ''Player not found''" ?f "Oid 3" "Oid 1"
          "HTTPException 404 ''Listing not found''"]
  from t l1 l2 l3 f1 f2 f3 f4 f5 show ?thesis
    by (simp only: find_one_empty simp_thms)
qed

section \<open>The format check of \<open>from_club_id\<close>\<close>

text \<open>
  Claim C9, as stated, fails from right to left: with a malformed \<open>player_id\<close>, a
  \<open>from_club_id\<close> that is non-empty and malformed is never looked at, and the error is
  \<open>Invalid player_id\<close>.
\<close>

theorem bad_player_id_masks_bad_from_club_id:
  "listing_from_club_id (listing_of ''not-an-id'' (Some ''not-an-id'')) = Some ''not-an-id'' \<and>
   ''not-an-id'' \<noteq> [] \<and> \<not> is_valid ''not-an-id'' \<and>
   fst (create_listing (listing_of ''not-an-id'' (Some ''not-an-id'')) empty_store) =
     Inl (HTTPException 400 ''Invalid player_id'') \<and>
   fst (create_listing (listing_of ''not-an-id'' (Some ''not-an-id'')) empty_store) \<noteq>
     Inl (HTTPException 400 ''Invalid from_club_id'')"
  by (simp add: create_listing_def listing_of_def ListingIn_init_def not_an_id_invalid)

text \<open>
  Claim C9, amended. \<open>create_listing\<close> rejects with the 400 error \<open>Invalid from_club_id\<close>
  if and only if \<open>player_id\<close> is well-formed and \<open>from_club_id\<close> is supplied, non-empty and
  not well-formed. A request whose \<open>from_club_id\<close> is the empty string passes the format check:
  when its \<open>player_id\<close> is well-formed and the player exists, the listing is written, with
  \<open>from_club_id\<close> stored as the empty string.
\<close>

theorem invalid_from_club_id_iff:
  "(fst (create_listing l st) = Inl (HTTPException 400 ''Invalid from_club_id'') \<longleftrightarrow>
      is_valid (listing_player_id l) \<and>
      (\<exists>c. listing_from_club_id l = Some c \<and> c \<noteq> [] \<and> \<not> is_valid c)) \<and>
   (listing_from_club_id l = Some [] \<and> is_valid (listing_player_id l) \<and>
    ObjectId (listing_player_id l) = Inr i \<and> fst (find_one ''player'' i st) \<noteq> None \<longrightarrow>
      fst (create_listing l st) = Inr (IdModel (str_oid (Oid (of_nat (next_oid st))))) \<and>
      collections (snd (create_listing l st)) ''transferlisting'' =
        collections st ''transferlisting'' @
          [(''_id'', VOid (Oid (of_nat (next_oid st)))) # ListingIn_model_dump l] \<and>
      get_field (ListingIn_model_dump l) ''from_club_id'' = VStr [])"
proof (intro conjI impI)
  have bad: "(\<exists>c. listing_from_club_id l = Some c \<and> c \<noteq> [] \<and> \<not> is_valid c)
               \<longleftrightarrow> \<not> from_club_format_ok l"
    by (auto simp: from_club_format_ok_def split: option.splits)
  show "fst (create_listing l st) = Inl (HTTPException 400 ''Invalid from_club_id'') \<longleftrightarrow>
      is_valid (listing_player_id l) \<and>
      (\<exists>c. listing_from_club_id l = Some c \<and> c \<noteq> [] \<and> \<not> is_valid c)"
  proof (cases "is_valid (listing_player_id l)")
    case False
    then show ?thesis by (simp add: create_listing_bad_player)
  next
    case v: True
    show ?thesis
    proof (cases "from_club_format_ok l")
      case False
      with v show ?thesis unfolding bad by (simp add: create_listing_bad_club)
    next
      case ok: True
      from v obtain j where j: "ObjectId (listing_player_id l) = Inr j"
        using ObjectId_valid by blast
      have "fst (create_listing l st) \<noteq> Inl (HTTPException 400 ''Invalid from_club_id'')"
      proof (cases "fst (find_one ''player'' j st) = None")
        case True
        with v ok j show ?thesis by (simp add: create_listing_missing)
      next
        case False
        with v ok j show ?thesis by (simp add: create_listing_found)
      qed
      with v ok show ?thesis unfolding bad by simp
    qed
  qed
next
  assume h: "listing_from_club_id l = Some [] \<and> is_valid (listing_player_id l) \<and>
    ObjectId (listing_player_id l) = Inr i \<and> fst (find_one ''player'' i st) \<noteq> None"
  then have ok: "from_club_format_ok l"
    by (simp add: from_club_format_ok_def)
  have run: "create_listing l st =
     (Inr (IdModel (fst (create_document ''transferlisting'' (ListingIn_model_dump l)
                          (snd (find_one ''player'' i st))))),
      snd (create_document ''transferlisting'' (ListingIn_model_dump l)
             (snd (find_one ''player'' i st))))"
    using h ok by (simp add: create_listing_found)
  show "fst (create_listing l st) = Inr (IdModel (str_oid (Oid (of_nat (next_oid st)))))"
    unfolding run by (simp add: create_document_def find_one_def Let_def del: str_oid.simps)
  show "collections (snd (create_listing l st)) ''transferlisting'' =
        collections st ''transferlisting'' @
          [(''_id'', VOid (Oid (of_nat (next_oid st)))) # ListingIn_model_dump l]"
    unfolding run
    by (simp add: create_document_collections find_one_collections find_one_next_oid)
  show "get_field (ListingIn_model_dump l) ''from_club_id'' = VStr []"
    using h by (simp add: get_field_def ListingIn_model_dump_def)
qed

lemma find_player_cp: "fst (find_one ''player'' (Oid 2) store_cp) \<noteq> None"
  by (simp add: find_one_def store_cp_eq get_field_def eq_match_def)

theorem invalid_from_club_id_iff_witness:
  "listing_from_club_id (listing_of (str_oid (Oid 2)) (Some [])) = Some [] \<and>
   is_valid (listing_player_id (listing_of (str_oid (Oid 2)) (Some []))) \<and>
   ObjectId (listing_player_id (listing_of (str_oid (Oid 2)) (Some []))) = Inr (Oid 2) \<and>
   fst (find_one ''player'' (Oid 2) store_cp) \<noteq> None \<and>
   fst (create_listing (listing_of (str_oid (Oid 2)) (Some [])) store_cp) =
     Inr (IdModel (str_oid (Oid 3))) \<and>
   collections (snd (create_listing (listing_of (str_oid (Oid 2)) (Some [])) store_cp))
       ''transferlisting'' =
     [(''_id'', VOid (Oid 3)) # ListingIn_model_dump (listing_of (str_oid (Oid 2)) (Some []))] \<and>
   get_field (ListingIn_model_dump (listing_of (str_oid (Oid 2)) (Some []))) ''from_club_id'' =
     VStr []"
proof -
  let ?l = "listing_of (str_oid (Oid 2)) (Some [])"
  have l0: "listing_from_club_id ?l = Some []"
    by (simp add: listing_of_def ListingIn_init_def)
  have l1: "is_valid (listing_player_id ?l)"
    by (simp add: listing_of_def ListingIn_init_def valid_oid2 del: str_oid.simps)
  have l3: "ObjectId (listing_player_id ?l) = Inr (Oid 2)"
    by (simp add: listing_of_def ListingIn_init_def ObjectId_oid2 del: str_oid.simps)
  have n: "next_oid store_cp = 3" "collections store_cp ''transferlisting'' = []"
    by (simp_all add: store_cp_eq)
  have w: "Oid (of_nat (3::nat)) = Oid 3"
    by simp
  note t = invalid_from_club_id_iff [of ?l store_cp "Oid 2"]
  from t l0 l1 l3 find_player_cp show ?thesis
    unfolding n w by (simp only: simp_thms append_Nil)
qed

section \<open>Reads, defaults and stored references\<close>

lemma aggregate_reads_only:
  "fst (aggregate c p st) = fold (run_stage (collections st)) p (collections st c)"
  "collections (snd (aggregate c p st)) = collections st"
  "next_oid (snd (aggregate c p st)) = next_oid st"
  by (simp_all add: aggregate_def)

lemma list_listings_fst:
  "fst (list_listings other st) =
     for_each (listing_item other)
       (fold (run_stage (collections st))
          [Lookup ''player'' ''player_id'' ''_id'' ''player'', Unwind ''player'' False,
           Lookup ''club'' ''from_club_id'' ''_id'' ''from_club'', Unwind ''from_club'' True]
          (collections st ''transferlisting''))"
  by (simp add: list_listings_def aggregate_def split_def)

lemma list_listings_snd:
  "snd (list_listings other st) = st\<lparr>trace := trace st @ [Aggregate ''transferlisting'']\<rparr>"
  by (simp add: list_listings_def aggregate_def split_def)

text \<open>
  Claim C10. \<open>GET /listings\<close> is a pure read: the call leaves every collection (and the
  identifier counter) as it was, a second call right after the first returns the same
  content, and any two stores with the same collections get the same answer.
\<close>

theorem list_listings_pure:
  "collections (snd (list_listings other st)) = collections st \<and>
   next_oid (snd (list_listings other st)) = next_oid st \<and>
   fst (list_listings other (snd (list_listings other st))) = fst (list_listings other st) \<and>
   (\<forall>st2. collections st2 = collections st \<longrightarrow>
      fst (list_listings other st2) = fst (list_listings other st))"
proof (intro conjI allI impI)
  show "collections (snd (list_listings other st)) = collections st"
    by (simp add: list_listings_snd)
  show "next_oid (snd (list_listings other st)) = next_oid st"
    by (simp add: list_listings_snd)
  show "fst (list_listings other (snd (list_listings other st))) = fst (list_listings other st)"
    by (simp add: list_listings_fst list_listings_snd)
next
  fix st2 :: store
  assume "collections st2 = collections st"
  then show "fst (list_listings other st2) = fst (list_listings other st)"
    by (simp add: list_listings_fst)
qed

lemma serialize_map_of:
  "map_of (serialize other d) =
     (case map_of d ''_id'' of
        None \<Rightarrow> map_of d
      | Some v \<Rightarrow> ((map_of d)(''_id'' := None))(''id'' \<mapsto> VStr (py_str other v)))"
  by (cases d) (auto simp: serialize_def update_conv' delete_conv' split: option.splits)

lemma serialize_flattened: "flattened other d (serialize other d)"
  by (simp add: flattened_def serialize_map_of split: option.splits)

lemma serialize_no_id: "\<not> has_key p ''_id'' \<Longrightarrow> serialize other p = p"
  by (simp add: serialize_def)

lemma flatten_joined_doc:
  assumes "map_of d k = Some (VDoc p)"
  shows "\<exists>r. flatten_joined other k d = Inr r \<and>
             map_of r = (map_of d)(k \<mapsto> VDoc (serialize other p))"
proof (cases "has_key p ''_id''")
  case True
  then obtain v where v: "map_of p ''_id'' = Some v" by auto
  then have ne: "p \<noteq> []" by auto
  have "flatten_joined other k d = Inr (dict_set k (VDoc (serialize other p)) d)"
    using assms v ne by (simp add: flatten_joined_def serialize_def)
  then show ?thesis by (simp add: update_conv')
next
  case False
  then have "flatten_joined other k d = Inr d"
    using assms by (simp add: flatten_joined_def)
  moreover have "map_of d = (map_of d)(k \<mapsto> VDoc (serialize other p))"
    using assms False by (auto simp: serialize_no_id)
  ultimately show ?thesis by simp
qed

lemma for_each_all:
  "(\<And>d. d \<in> set ds \<Longrightarrow> \<exists>r. f d = Inr r \<and> P d r) \<Longrightarrow>
   \<exists>rs. for_each f ds = Inr rs \<and> list_all2 P ds rs"
proof (induction ds)
  case Nil
  then show ?case by simp
next
  case (Cons d ds)
  from Cons.prems obtain r where r: "f d = Inr r" "P d r" by auto
  from Cons obtain rs where rs: "for_each f ds = Inr rs" "list_all2 P ds rs" by auto
  from r rs show ?case by simp
qed

lemma lookup_map_of:
  "\<exists>ms. map_of (lookup F lf ff as d) = (map_of d)(as \<mapsto> VList (map VDoc ms))"
  by (auto simp: lookup_def update_conv')

lemma unwind_docs:
  assumes "map_of d path = Some (VList (map VDoc ms))" and "e \<in> set (unwind path pres d)"
  shows "(\<exists>p. map_of e = (map_of d)(path \<mapsto> VDoc p)) \<or>
         (pres \<and> map_of e = (map_of d)(path := None))"
proof (cases "ms = []")
  case True
  with assms show ?thesis
    by (auto simp: unwind_def delete_conv' split: if_splits)
next
  case False
  with assms obtain p where "e = dict_set path (VDoc p) d"
    by (auto simp: unwind_def)
  then show ?thesis by (auto simp: update_conv')
qed

lemma lookup_unwind_strict:
  assumes "e \<in> set (concat (map (unwind as False) (map (lookup F lf ff as) ds)))"
  shows "\<exists>d p. d \<in> set ds \<and> map_of e = (map_of d)(as \<mapsto> VDoc p)"
proof -
  from assms obtain d where d: "d \<in> set ds" and e: "e \<in> set (unwind as False (lookup F lf ff as d))"
    by auto
  obtain ms where ms: "map_of (lookup F lf ff as d) = (map_of d)(as \<mapsto> VList (map VDoc ms))"
    using lookup_map_of by blast
  then have "map_of (lookup F lf ff as d) as = Some (VList (map VDoc ms))" by simp
  from unwind_docs [OF this e] obtain p
    where "map_of e = (map_of (lookup F lf ff as d))(as \<mapsto> VDoc p)" by auto
  with ms have "map_of e = (map_of d)(as \<mapsto> VDoc p)" by simp
  with d show ?thesis by blast
qed

lemma lookup_unwind_preserve:
  assumes "e \<in> set (concat (map (unwind as True) (map (lookup F lf ff as) ds)))"
  shows "\<exists>d. d \<in> set ds \<and>
           ((\<exists>p. map_of e = (map_of d)(as \<mapsto> VDoc p)) \<or> map_of e = (map_of d)(as := None))"
proof -
  from assms obtain d where d: "d \<in> set ds" and e: "e \<in> set (unwind as True (lookup F lf ff as d))"
    by auto
  obtain ms where ms: "map_of (lookup F lf ff as d) = (map_of d)(as \<mapsto> VList (map VDoc ms))"
    using lookup_map_of by blast
  then have "map_of (lookup F lf ff as d) as = Some (VList (map VDoc ms))" by simp
  from unwind_docs [OF this e]
  have "(\<exists>p. map_of e = (map_of (lookup F lf ff as d))(as \<mapsto> VDoc p)) \<or>
        map_of e = (map_of (lookup F lf ff as d))(as := None)" by auto
  with ms have "(\<exists>p. map_of e = (map_of d)(as \<mapsto> VDoc p)) \<or> map_of e = (map_of d)(as := None)"
    by auto
  with d show ?thesis by blast
qed

lemma listings_pipeline_shape:
  assumes "e \<in> set (fold (run_stage cs)
          [Lookup ''player'' ''player_id'' ''_id'' ''player'', Unwind ''player'' False,
           Lookup ''club'' ''from_club_id'' ''_id'' ''from_club'', Unwind ''from_club'' True] ds)"
  shows "(\<exists>p. map_of e ''player'' = Some (VDoc p)) \<and>
         (map_of e ''from_club'' = None \<or> (\<exists>c. map_of e ''from_club'' = Some (VDoc c)))"
proof -
  from assms have "e \<in> set (concat (map (unwind ''from_club'' True)
      (map (lookup (cs ''club'') ''from_club_id'' ''_id'' ''from_club'')
        (concat (map (unwind ''player'' False)
          (map (lookup (cs ''player'') ''player_id'' ''_id'' ''player'') ds))))))"
    by simp
  from lookup_unwind_preserve [OF this] obtain d1
    where d1: "d1 \<in> set (concat (map (unwind ''player'' False)
          (map (lookup (cs ''player'') ''player_id'' ''_id'' ''player'') ds)))"
      and e: "(\<exists>p. map_of e = (map_of d1)(''from_club'' \<mapsto> VDoc p)) \<or>
              map_of e = (map_of d1)(''from_club'' := None)"
    by blast
  from lookup_unwind_strict [OF d1] obtain d p
    where "map_of d1 = (map_of d)(''player'' \<mapsto> VDoc p)" by blast
  then have "map_of d1 ''player'' = Some (VDoc p)" by simp
  with e show ?thesis by auto
qed

lemma offers_pipeline_shape:
  assumes "e \<in> set (fold (run_stage cs)
          [Lookup ''transferlisting'' ''listing_id'' ''_id'' ''listing'', Unwind ''listing'' False,
           Lookup ''club'' ''club_id'' ''_id'' ''club'', Unwind ''club'' False] ds)"
  shows "(\<exists>p. map_of e ''listing'' = Some (VDoc p)) \<and> (\<exists>c. map_of e ''club'' = Some (VDoc c))"
proof -
  from assms have "e \<in> set (concat (map (unwind ''club'' False)
      (map (lookup (cs ''club'') ''club_id'' ''_id'' ''club'')
        (concat (map (unwind ''listing'' False)
          (map (lookup (cs ''transferlisting'') ''listing_id'' ''_id'' ''listing'') ds))))))"
    by simp
  from lookup_unwind_strict [OF this] obtain d1 c
    where d1: "d1 \<in> set (concat (map (unwind ''listing'' False)
          (map (lookup (cs ''transferlisting'') ''listing_id'' ''_id'' ''listing'') ds)))"
      and e: "map_of e = (map_of d1)(''club'' \<mapsto> VDoc c)"
    by blast
  from lookup_unwind_strict [OF d1] obtain d p
    where "map_of d1 = (map_of d)(''listing'' \<mapsto> VDoc p)" by blast
  then have "map_of d1 ''listing'' = Some (VDoc p)" by simp
  with e show ?thesis by auto
qed

lemma flattened_sub_doc:
  "x = Some (VDoc p) \<Longrightarrow> y = Some (VDoc (serialize other p)) \<Longrightarrow> flattened_sub other x y"
  by (simp add: flattened_sub_def serialize_flattened)

lemma flattened_joined_intro:
  assumes "map_of r ''_id'' = None"
    and "\<And>k. k \<noteq> ''_id'' \<Longrightarrow> k \<notin> set joined \<Longrightarrow> map_of r k = map_of (serialize other d) k"
    and "list_all (\<lambda>k. flattened_sub other (map_of d k) (map_of r k)) joined"
    and "''id'' \<notin> set joined"
  shows "flattened_joined other joined d r"
proof -
  have f: "flattened other d (serialize other d)" by (rule serialize_flattened)
  have id: "map_of r ''id'' = map_of (serialize other d) ''id''"
    using assms(2) [of "''id''"] assms(4) by simp
  show ?thesis
    unfolding flattened_joined_def
  proof (intro conjI allI impI)
    show "\<not> has_key r ''_id''" using assms(1) by simp
    show "case map_of d ''_id'' of None \<Rightarrow> map_of r ''id'' = map_of d ''id''
          | Some v \<Rightarrow> map_of r ''id'' = Some (VStr (py_str other v))"
      using f id by (simp add: flattened_def split: option.splits)
    show "list_all (\<lambda>k. flattened_sub other (map_of d k) (map_of r k)) joined"
      by (rule assms(3))
  next
    fix k assume k: "k \<noteq> ''_id'' \<and> k \<noteq> ''id'' \<and> k \<notin> set joined"
    then have "map_of r k = map_of (serialize other d) k" using assms(2) by simp
    also have "\<dots> = map_of d k" using f k by (simp add: flattened_def)
    finally show "map_of r k = map_of d k" .
  qed
qed

lemma serialize_keeps:
  "k \<noteq> ''_id'' \<Longrightarrow> k \<noteq> ''id'' \<Longrightarrow> map_of (serialize other d) k = map_of d k"
  by (simp add: serialize_map_of split: option.splits)

lemma serialize_drops_id: "map_of (serialize other d) ''_id'' = None"
  by (simp add: serialize_map_of split: option.splits)

lemma listing_item_flattened:
  assumes p: "map_of d ''player'' = Some (VDoc p)"
    and c: "map_of d ''from_club'' = None \<or> (\<exists>c. map_of d ''from_club'' = Some (VDoc c))"
  shows "\<exists>r. listing_item other d = Inr r \<and>
             flattened_joined other [''player'', ''from_club''] d r"
proof -
  let ?d1 = "serialize other d"
  have "map_of ?d1 ''player'' = Some (VDoc p)"
    using p by (simp add: serialize_keeps)
  from flatten_joined_doc [OF this] obtain r1
    where r1: "flatten_joined other ''player'' ?d1 = Inr r1"
      and m1: "map_of r1 = (map_of ?d1)(''player'' \<mapsto> VDoc (serialize other p))"
    by blast
  have fc1: "map_of r1 ''from_club'' = map_of d ''from_club''"
    by (simp add: m1 serialize_keeps)
  show ?thesis
  proof (cases "map_of d ''from_club''")
    case None
    then have run: "listing_item other d = Inr r1"
      using r1 fc1 by (simp add: listing_item_def)
    have "flattened_joined other [''player'', ''from_club''] d r1"
    proof (rule flattened_joined_intro)
      show "map_of r1 ''_id'' = None" by (simp add: m1 serialize_drops_id)
      show "list_all (\<lambda>k. flattened_sub other (map_of d k) (map_of r1 k))
              [''player'', ''from_club'']"
        using None fc1 p by (simp add: m1 flattened_sub_doc) (simp add: flattened_sub_def)
      show "''id'' \<notin> set [''player'', ''from_club'']" by simp
    next
      fix k assume "k \<noteq> ''_id''" "k \<notin> set [''player'', ''from_club'']"
      then show "map_of r1 k = map_of ?d1 k" by (simp add: m1)
    qed
    with run show ?thesis by blast
  next
    case (Some x)
    with c obtain cl where cl: "map_of d ''from_club'' = Some (VDoc cl)" by auto
    show ?thesis
    proof (cases "cl = []")
      case True
      have run: "listing_item other d = Inr r1"
        using r1 fc1 cl True by (simp add: listing_item_def get_field_def)
      have "flattened_joined other [''player'', ''from_club''] d r1"
      proof (rule flattened_joined_intro)
        show "map_of r1 ''_id'' = None" by (simp add: m1 serialize_drops_id)
        have "flattened_sub other (map_of d ''from_club'') (map_of r1 ''from_club'')"
          using cl True fc1 by (simp add: flattened_sub_def flattened_def)
        then show "list_all (\<lambda>k. flattened_sub other (map_of d k) (map_of r1 k))
              [''player'', ''from_club'']"
          using p by (simp add: m1 flattened_sub_doc)
        show "''id'' \<notin> set [''player'', ''from_club'']" by simp
      next
        fix k assume "k \<noteq> ''_id''" "k \<notin> set [''player'', ''from_club'']"
        then show "map_of r1 k = map_of ?d1 k" by (simp add: m1)
      qed
      with run show ?thesis by blast
    next
      case False
      have "map_of r1 ''from_club'' = Some (VDoc cl)" using fc1 cl by simp
      from flatten_joined_doc [OF this] obtain r2
        where r2: "flatten_joined other ''from_club'' r1 = Inr r2"
          and m2: "map_of r2 = (map_of r1)(''from_club'' \<mapsto> VDoc (serialize other cl))"
        by blast
      have run: "listing_item other d = Inr r2"
        using r1 r2 fc1 cl False by (simp add: listing_item_def get_field_def)
      have "flattened_joined other [''player'', ''from_club''] d r2"
      proof (rule flattened_joined_intro)
        show "map_of r2 ''_id'' = None" by (simp add: m2 m1 serialize_drops_id)
        show "list_all (\<lambda>k. flattened_sub other (map_of d k) (map_of r2 k))
              [''player'', ''from_club'']"
          using p cl by (simp add: m2 m1 flattened_sub_doc)
        show "''id'' \<notin> set [''player'', ''from_club'']" by simp
      next
        fix k assume "k \<noteq> ''_id''" "k \<notin> set [''player'', ''from_club'']"
        then show "map_of r2 k = map_of ?d1 k" by (simp add: m2 m1)
      qed
      with run show ?thesis by blast
    qed
  qed
qed

lemma offer_item_flattened:
  assumes p: "map_of d ''listing'' = Some (VDoc p)"
    and c: "map_of d ''club'' = Some (VDoc c)"
  shows "\<exists>r. offer_item other d = Inr r \<and>
             flattened_joined other [''listing'', ''club''] d r"
proof -
  let ?d1 = "serialize other d"
  have "map_of ?d1 ''listing'' = Some (VDoc p)"
    using p by (simp add: serialize_keeps)
  from flatten_joined_doc [OF this] obtain r1
    where r1: "flatten_joined other ''listing'' ?d1 = Inr r1"
      and m1: "map_of r1 = (map_of ?d1)(''listing'' \<mapsto> VDoc (serialize other p))"
    by blast
  have "map_of r1 ''club'' = Some (VDoc c)"
    using c by (simp add: m1 serialize_keeps)
  from flatten_joined_doc [OF this] obtain r2
    where r2: "flatten_joined other ''club'' r1 = Inr r2"
      and m2: "map_of r2 = (map_of r1)(''club'' \<mapsto> VDoc (serialize other c))"
    by blast
  have run: "offer_item other d = Inr r2"
    using r1 r2 by (simp add: offer_item_def)
  have "flattened_joined other [''listing'', ''club''] d r2"
  proof (rule flattened_joined_intro)
    show "map_of r2 ''_id'' = None" by (simp add: m2 m1 serialize_drops_id)
    show "list_all (\<lambda>k. flattened_sub other (map_of d k) (map_of r2 k)) [''listing'', ''club'']"
      using p c by (simp add: m2 m1 flattened_sub_doc)
    show "''id'' \<notin> set [''listing'', ''club'']" by simp
  next
    fix k assume "k \<noteq> ''_id''" "k \<notin> set [''listing'', ''club'']"
    then show "map_of r2 k = map_of ?d1 k" by (simp add: m2 m1)
  qed
  with run show ?thesis by blast
qed

lemma list_offers_fst:
  "fst (list_offers other st) =
     for_each (offer_item other)
       (fold (run_stage (collections st))
          [Lookup ''transferlisting'' ''listing_id'' ''_id'' ''listing'', Unwind ''listing'' False,
           Lookup ''club'' ''club_id'' ''_id'' ''club'', Unwind ''club'' False]
          (collections st ''transferoffer''))"
  by (simp add: list_offers_def aggregate_def split_def)

lemma list_all2_map_same: "(\<And>x. P x (f x)) \<Longrightarrow> list_all2 P xs (map f xs)"
  by (induction xs) auto

text \<open>
  Claim C7. No read endpoint returns a document with \<open>_id\<close>. \<open>GET /players\<close> and
  \<open>GET /clubs\<close> return the stored documents flattened, one for one. \<open>GET /listings\<close> and
  \<open>GET /offers\<close> never fail, and return the documents of their pipelines with the top level
  flattened and the joined sub-documents (\<open>player\<close> and \<open>from_club\<close>, \<open>listing\<close> and \<open>club\<close>)
  flattened too: \<open>_id\<close> gone, its string under \<open>id\<close>, every other field unchanged.
\<close>

theorem responses_hide_storage_id:
  "list_all2 (flattened other) (collections st ''player'') (fst (list_players other st)) \<and>
   list_all2 (flattened other) (collections st ''club'') (fst (list_clubs other st)) \<and>
   (\<exists>rs. fst (list_listings other st) = Inr rs \<and>
      list_all2 (flattened_joined other [''player'', ''from_club''])
        (fst (aggregate ''transferlisting''
               [Lookup ''player'' ''player_id'' ''_id'' ''player'', Unwind ''player'' False,
                Lookup ''club'' ''from_club_id'' ''_id'' ''from_club'',
                Unwind ''from_club'' True] st)) rs) \<and>
   (\<exists>rs. fst (list_offers other st) = Inr rs \<and>
      list_all2 (flattened_joined other [''listing'', ''club''])
        (fst (aggregate ''transferoffer''
               [Lookup ''transferlisting'' ''listing_id'' ''_id'' ''listing'',
                Unwind ''listing'' False,
                Lookup ''club'' ''club_id'' ''_id'' ''club'', Unwind ''club'' False] st)) rs)"
proof (intro conjI)
  show "list_all2 (flattened other) (collections st ''player'') (fst (list_players other st))"
    by (simp add: list_players_def get_documents_def list_all2_map_same serialize_flattened)
  show "list_all2 (flattened other) (collections st ''club'') (fst (list_clubs other st))"
    by (simp add: list_clubs_def get_documents_def list_all2_map_same serialize_flattened)
  show "\<exists>rs. fst (list_listings other st) = Inr rs \<and>
      list_all2 (flattened_joined other [''player'', ''from_club''])
        (fst (aggregate ''transferlisting''
               [Lookup ''player'' ''player_id'' ''_id'' ''player'', Unwind ''player'' False,
                Lookup ''club'' ''from_club_id'' ''_id'' ''from_club'',
                Unwind ''from_club'' True] st)) rs"
    unfolding list_listings_fst aggregate_reads_only
  proof (rule for_each_all)
    fix d
    assume "d \<in> set (fold (run_stage (collections st))
          [Lookup ''player'' ''player_id'' ''_id'' ''player'', Unwind ''player'' False,
           Lookup ''club'' ''from_club_id'' ''_id'' ''from_club'', Unwind ''from_club'' True]
          (collections st ''transferlisting''))"
    from listings_pipeline_shape [OF this]
    show "\<exists>r. listing_item other d = Inr r \<and>
               flattened_joined other [''player'', ''from_club''] d r"
      by (auto intro: listing_item_flattened)
  qed
  show "\<exists>rs. fst (list_offers other st) = Inr rs \<and>
      list_all2 (flattened_joined other [''listing'', ''club''])
        (fst (aggregate ''transferoffer''
               [Lookup ''transferlisting'' ''listing_id'' ''_id'' ''listing'',
                Unwind ''listing'' False,
                Lookup ''club'' ''club_id'' ''_id'' ''club'', Unwind ''club'' False] st)) rs"
    unfolding list_offers_fst aggregate_reads_only
  proof (rule for_each_all)
    fix d
    assume "d \<in> set (fold (run_stage (collections st))
          [Lookup ''transferlisting'' ''listing_id'' ''_id'' ''listing'', Unwind ''listing'' False,
           Lookup ''club'' ''club_id'' ''_id'' ''club'', Unwind ''club'' False]
          (collections st ''transferoffer''))"
    from offers_pipeline_shape [OF this]
    show "\<exists>r. offer_item other d = Inr r \<and>
               flattened_joined other [''listing'', ''club''] d r"
      by (auto intro: offer_item_flattened)
  qed
qed

lemma joined_pipeline:
  "fst (aggregate ''transferlisting''
               [Lookup ''player'' ''player_id'' ''_id'' ''player'', Unwind ''player'' False,
                Lookup ''club'' ''from_club_id'' ''_id'' ''from_club'',
                Unwind ''from_club'' True] joined_store) = [joined_listing]"
  by (simp add: aggregate_def joined_store_def joined_listing_def lookup_def unwind_def
      get_field_def eq_match_def)

lemma joined_response:
  "fst (list_listings other joined_store) = Inr [listing_response]"
  by (simp add: list_listings_fst joined_store_def listing_response_def lookup_def unwind_def
      get_field_def eq_match_def listing_item_def serialize_def flatten_joined_def py_str_def
      Let_def del: str_oid.simps)

theorem responses_hide_storage_id_witness:
  "fst (list_listings (\<lambda>v. []) joined_store) = Inr [listing_response] \<and>
   flattened_joined (\<lambda>v. []) [''player'', ''from_club''] joined_listing listing_response"
proof -
  from responses_hide_storage_id [of "\<lambda>v. []" joined_store]
  have "\<exists>rs. fst (list_listings (\<lambda>v. []) joined_store) = Inr rs \<and>
      list_all2 (flattened_joined (\<lambda>v. []) [''player'', ''from_club''])
        (fst (aggregate ''transferlisting''
               [Lookup ''player'' ''player_id'' ''_id'' ''player'', Unwind ''player'' False,
                Lookup ''club'' ''from_club_id'' ''_id'' ''from_club'',
                Unwind ''from_club'' True] joined_store)) rs"
    by blast
  then show ?thesis
    unfolding joined_pipeline joined_response by simp
qed

lemma create_listing_accepted:
  assumes "fst (create_listing l st) = Inr r"
  shows "r = IdModel (str_oid (Oid (of_nat (next_oid st)))) \<and>
         collections (snd (create_listing l st)) =
           (collections st)(''transferlisting'' := collections st ''transferlisting'' @
              [(''_id'', VOid (Oid (of_nat (next_oid st)))) # ListingIn_model_dump l])"
proof -
  have v: "is_valid (listing_player_id l)"
    using assms by (cases "is_valid (listing_player_id l)") (auto simp: create_listing_bad_player)
  have ok: "from_club_format_ok l"
    using assms v by (cases "from_club_format_ok l") (auto simp: create_listing_bad_club)
  from v obtain i where i: "ObjectId (listing_player_id l) = Inr i"
    using ObjectId_valid by blast
  have f: "fst (find_one ''player'' i st) \<noteq> None"
    using assms v ok i
    by (cases "fst (find_one ''player'' i st) = None") (auto simp: create_listing_missing)
  note run = create_listing_found [OF v ok i f]
  show ?thesis
    using assms unfolding run
    by (simp add: create_document_def find_one_def Let_def del: str_oid.simps)
qed

lemma create_offer_accepted:
  assumes "fst (create_offer f st) = Inr r"
  shows "r = IdModel (str_oid (Oid (of_nat (next_oid st)))) \<and>
         collections (snd (create_offer f st)) =
           (collections st)(''transferoffer'' := collections st ''transferoffer'' @
              [(''_id'', VOid (Oid (of_nat (next_oid st)))) # OfferIn_model_dump f])"
proof -
  have v: "is_valid (offer_listing_id f)" "is_valid (offer_club_id f)"
    using assms
    by (cases "is_valid (offer_listing_id f)"; cases "is_valid (offer_club_id f)";
        simp add: create_offer_bad_ids)+
  from v obtain li ci where li: "ObjectId (offer_listing_id f) = Inr li"
    and ci: "ObjectId (offer_club_id f) = Inr ci"
    using ObjectId_valid by blast
  have fl: "fst (find_one ''transferlisting'' li st) \<noteq> None"
    using assms v li
    by (cases "fst (find_one ''transferlisting'' li st) = None")
       (auto simp: create_offer_missing_listing)
  have fc: "fst (find_one ''club'' ci (snd (find_one ''transferlisting'' li st))) \<noteq> None"
    using assms v li ci fl
    by (cases "fst (find_one ''club'' ci (snd (find_one ''transferlisting'' li st))) = None")
       (auto simp: create_offer_missing_club)
  note run = create_offer_found [OF v li ci fl fc]
  show ?thesis
    using assms unfolding run
    by (simp add: create_document_def find_one_def Let_def del: str_oid.simps)
qed

text \<open>
  Claim C8. When a create request omits a field that has a declared default, the document
  written carries the default: \<open>skills\<close> the empty list for a player, \<open>budget\<close> 0 for a club,
  \<open>status\<close> \<open>open\<close> for a listing that is accepted and \<open>pending\<close> for an offer that is
  accepted.
\<close>

theorem omitted_fields_take_defaults:
  "(kw_player_skills kp = Omitted \<longrightarrow>
      (\<exists>d. collections (snd (create_player (PlayerIn_init kp) st)) ''player'' =
             collections st ''player'' @ [d] \<and> map_of d ''skills'' = Some (VList []))) \<and>
   (kw_club_budget kc = Omitted \<longrightarrow>
      (\<exists>d. collections (snd (create_club (ClubIn_init kc) st)) ''club'' =
             collections st ''club'' @ [d] \<and> map_of d ''budget'' = Some (VNum 0))) \<and>
   (kw_listing_status kl = Omitted \<and> fst (create_listing (ListingIn_init kl) st) = Inr r \<longrightarrow>
      (\<exists>d. collections (snd (create_listing (ListingIn_init kl) st)) ''transferlisting'' =
             collections st ''transferlisting'' @ [d] \<and>
           map_of d ''status'' = Some (VStr ''open''))) \<and>
   (kw_offer_status ko = Omitted \<and> fst (create_offer (OfferIn_init ko) st) = Inr r' \<longrightarrow>
      (\<exists>d. collections (snd (create_offer (OfferIn_init ko) st)) ''transferoffer'' =
             collections st ''transferoffer'' @ [d] \<and>
           map_of d ''status'' = Some (VStr ''pending'')))"
proof (intro conjI impI)
  assume "kw_player_skills kp = Omitted"
  then show "\<exists>d. collections (snd (create_player (PlayerIn_init kp) st)) ''player'' =
             collections st ''player'' @ [d] \<and> map_of d ''skills'' = Some (VList [])"
    by (simp add: create_player_def create_document_def Let_def PlayerIn_model_dump_def
        PlayerIn_init_def)
next
  assume "kw_club_budget kc = Omitted"
  then show "\<exists>d. collections (snd (create_club (ClubIn_init kc) st)) ''club'' =
             collections st ''club'' @ [d] \<and> map_of d ''budget'' = Some (VNum 0)"
    by (simp add: create_club_def create_document_def Let_def ClubIn_model_dump_def
        ClubIn_init_def)
next
  assume h: "kw_listing_status kl = Omitted \<and> fst (create_listing (ListingIn_init kl) st) = Inr r"
  then have "collections (snd (create_listing (ListingIn_init kl) st)) ''transferlisting'' =
      collections st ''transferlisting'' @
        [(''_id'', VOid (Oid (of_nat (next_oid st)))) # ListingIn_model_dump (ListingIn_init kl)]"
    using create_listing_accepted [of "ListingIn_init kl" st r] by simp
  moreover have "map_of ((''_id'', VOid (Oid (of_nat (next_oid st)))) #
        ListingIn_model_dump (ListingIn_init kl)) ''status'' = Some (VStr ''open'')"
    using h by (simp add: ListingIn_model_dump_def ListingIn_init_def)
  ultimately show "\<exists>d. collections (snd (create_listing (ListingIn_init kl) st))
        ''transferlisting'' = collections st ''transferlisting'' @ [d] \<and>
           map_of d ''status'' = Some (VStr ''open'')"
    by blast
next
  assume h: "kw_offer_status ko = Omitted \<and> fst (create_offer (OfferIn_init ko) st) = Inr r'"
  then have "collections (snd (create_offer (OfferIn_init ko) st)) ''transferoffer'' =
      collections st ''transferoffer'' @
        [(''_id'', VOid (Oid (of_nat (next_oid st)))) # OfferIn_model_dump (OfferIn_init ko)]"
    using create_offer_accepted [of "OfferIn_init ko" st r'] by simp
  moreover have "map_of ((''_id'', VOid (Oid (of_nat (next_oid st)))) #
        OfferIn_model_dump (OfferIn_init ko)) ''status'' = Some (VStr ''pending'')"
    using h by (simp add: OfferIn_model_dump_def OfferIn_init_def)
  ultimately show "\<exists>d. collections (snd (create_offer (OfferIn_init ko) st))
        ''transferoffer'' = collections st ''transferoffer'' @ [d] \<and>
           map_of d ''status'' = Some (VStr ''pending'')"
    by blast
qed

lemma create_listing_cp_fst:
  "fst (create_listing (listing_of (str_oid (Oid 2)) (Some (str_oid (Oid 1)))) store_cp) =
     Inr (IdModel (str_oid (Oid 3)))"
  by (simp only: create_listing_cp fst_conv)

lemma create_offer_cpl_fst:
  "fst (create_offer (offer_of (str_oid (Oid 3)) (str_oid (Oid 1))) store_cpl) =
     Inr (IdModel (str_oid (Oid 4)))"
  by (simp add: store_cpl_eq create_offer_def create_document_def find_one_def Let_def
        offer_of_def OfferIn_init_def valid_oid1 valid_oid3 ObjectId_oid1 ObjectId_oid3
        get_field_def eq_match_def
      del: str_oid.simps)

lemma last_of_appended: "xs = ys @ [d] \<Longrightarrow> P d \<Longrightarrow> P (last xs)"
  by simp

theorem omitted_fields_take_defaults_witness:
  "map_of (last (collections (snd (create_player player_x empty_store)) ''player'')) ''skills'' =
     Some (VList []) \<and>
   map_of (last (collections (snd (create_club lazio empty_store)) ''club'')) ''budget'' =
     Some (VNum 0) \<and>
   fst (create_listing (listing_of (str_oid (Oid 2)) (Some (str_oid (Oid 1)))) store_cp) =
     Inr (IdModel (str_oid (Oid 3))) \<and>
   map_of (last (collections
       (snd (create_listing (listing_of (str_oid (Oid 2)) (Some (str_oid (Oid 1)))) store_cp))
       ''transferlisting'')) ''status'' = Some (VStr ''open'') \<and>
   fst (create_offer (offer_of (str_oid (Oid 3)) (str_oid (Oid 1))) store_cpl) =
     Inr (IdModel (str_oid (Oid 4))) \<and>
   map_of (last (collections
       (snd (create_offer (offer_of (str_oid (Oid 3)) (str_oid (Oid 1))) store_cpl))
       ''transferoffer'')) ''status'' = Some (VStr ''pending'')"
proof (intro conjI)
  show "map_of (last (collections (snd (create_player player_x empty_store)) ''player''))
          ''skills'' = Some (VList [])"
    unfolding player_x_def
    using omitted_fields_take_defaults
      [of "\<lparr>kw_player_name = ''X'', kw_player_position = ''Forward'', kw_player_age = Omitted,
      kw_player_nationality = Omitted, kw_player_current_club_id = Omitted,
      kw_player_height_cm = Omitted, kw_player_preferred_foot = Omitted,
      kw_player_bio = Omitted, kw_player_skills = Omitted,
      kw_player_market_value = Omitted\<rparr>" empty_store, THEN conjunct1]
    by (auto elim: last_of_appended)
  show "map_of (last (collections (snd (create_club lazio empty_store)) ''club'')) ''budget'' =
     Some (VNum 0)"
    unfolding lazio_def
    using omitted_fields_take_defaults
      [of _ empty_store "\<lparr>kw_club_name = ''Lazio'', kw_club_league = Omitted,
      kw_club_country = Omitted, kw_club_budget = Omitted, kw_club_stadium = Omitted,
      kw_club_bio = Omitted\<rparr>", THEN conjunct2, THEN conjunct1]
    by (auto elim: last_of_appended)
  show l: "fst (create_listing (listing_of (str_oid (Oid 2)) (Some (str_oid (Oid 1)))) store_cp) =
     Inr (IdModel (str_oid (Oid 3)))"
    by (rule create_listing_cp_fst)
  show "map_of (last (collections
       (snd (create_listing (listing_of (str_oid (Oid 2)) (Some (str_oid (Oid 1)))) store_cp))
       ''transferlisting'')) ''status'' = Some (VStr ''open'')"
    using l unfolding listing_of_def
    using omitted_fields_take_defaults
      [of _ store_cp _ "\<lparr>kw_listing_player_id = str_oid (Oid 2),
         kw_listing_from_club_id = Given (Some (str_oid (Oid 1))),
         kw_listing_asking_price = 1000, kw_listing_status = Omitted\<rparr>"
         "IdModel (str_oid (Oid 3))", THEN conjunct2, THEN conjunct2, THEN conjunct1]
    by (auto elim: last_of_appended simp del: str_oid.simps)
  show f: "fst (create_offer (offer_of (str_oid (Oid 3)) (str_oid (Oid 1))) store_cpl) =
     Inr (IdModel (str_oid (Oid 4)))"
    by (rule create_offer_cpl_fst)
  show "map_of (last (collections
       (snd (create_offer (offer_of (str_oid (Oid 3)) (str_oid (Oid 1))) store_cpl))
       ''transferoffer'')) ''status'' = Some (VStr ''pending'')"
    using f unfolding offer_of_def
    using omitted_fields_take_defaults
      [of _ store_cpl _ _ _ "\<lparr>kw_offer_listing_id = str_oid (Oid 3),
         kw_offer_club_id = str_oid (Oid 1), kw_offer_offer_amount = 900,
         kw_offer_status = Omitted, kw_offer_message = Omitted\<rparr>"
         "IdModel (str_oid (Oid 4))", THEN conjunct2, THEN conjunct2, THEN conjunct2]
    by (auto elim: last_of_appended simp del: str_oid.simps)
qed

lemma lookup_no_match:
  assumes "\<And>j. \<not> eq_match (get_field d lf) (VOid j)"
    and "list_all (\<lambda>f. \<exists>j. get_field f ''_id'' = VOid j) F"
  shows "map_of (lookup F lf ''_id'' as d) as = Some (VList [])"
proof -
  have "filter (\<lambda>f. eq_match (get_field d lf) (get_field f ''_id'')) F = []"
    using assms by (auto simp: filter_empty_conv list_all_iff)
  then show ?thesis by (simp add: lookup_def update_conv')
qed

lemma str_never_matches_oid:
  "\<not> eq_match (VStr s) (VOid j)" "\<not> eq_match VNull (VOid j)" "\<not> eq_match (opt VStr x) (VOid j)"
  by (cases x; simp add: eq_match_def)+

text \<open>
  Claim C3. The document an accepted \<open>POST /listings\<close> writes is keyed by an ObjectId under
  \<open>_id\<close> and holds \<open>player_id\<close> as the string the client sent and \<open>from_club_id\<close> as the
  string the client sent, or null; the document an accepted \<open>POST /offers\<close> writes holds
  \<open>listing_id\<close> and \<open>club_id\<close> as the strings sent. Consequently the \<open>$lookup\<close> stages of
  the read pipelines, run on such a document against any collection keyed by ObjectIds,
  match a string with an ObjectId and join nothing.
\<close>

theorem references_stored_as_strings:
  "(fst (create_listing l st) = Inr r \<longrightarrow>
      (\<exists>i d. collections (snd (create_listing l st)) ''transferlisting'' =
               collections st ''transferlisting'' @ [d] \<and>
         map_of d ''_id'' = Some (VOid i) \<and>
         map_of d ''player_id'' = Some (VStr (listing_player_id l)) \<and>
         map_of d ''from_club_id'' = Some (opt VStr (listing_from_club_id l)) \<and>
         (\<forall>F. list_all (\<lambda>f. \<exists>j. get_field f ''_id'' = VOid j) F \<longrightarrow>
            map_of (lookup F ''player_id'' ''_id'' ''player'' d) ''player'' = Some (VList []) \<and>
            map_of (lookup F ''from_club_id'' ''_id'' ''from_club'' d) ''from_club'' =
              Some (VList [])))) \<and>
   (fst (create_offer f st) = Inr r' \<longrightarrow>
      (\<exists>i d. collections (snd (create_offer f st)) ''transferoffer'' =
               collections st ''transferoffer'' @ [d] \<and>
         map_of d ''_id'' = Some (VOid i) \<and>
         map_of d ''listing_id'' = Some (VStr (offer_listing_id f)) \<and>
         map_of d ''club_id'' = Some (VStr (offer_club_id f)) \<and>
         (\<forall>F. list_all (\<lambda>f. \<exists>j. get_field f ''_id'' = VOid j) F \<longrightarrow>
            map_of (lookup F ''listing_id'' ''_id'' ''listing'' d) ''listing'' = Some (VList []) \<and>
            map_of (lookup F ''club_id'' ''_id'' ''club'' d) ''club'' = Some (VList []))))"
proof (intro conjI impI)
  assume "fst (create_listing l st) = Inr r"
  from create_listing_accepted [OF this]
  have c: "collections (snd (create_listing l st)) ''transferlisting'' =
      collections st ''transferlisting'' @
        [(''_id'', VOid (Oid (of_nat (next_oid st)))) # ListingIn_model_dump l]"
    by simp
  let ?d = "(''_id'', VOid (Oid (of_nat (next_oid st)))) # ListingIn_model_dump l"
  have g: "get_field ?d ''player_id'' = VStr (listing_player_id l)"
    "get_field ?d ''from_club_id'' = opt VStr (listing_from_club_id l)"
    by (simp_all add: get_field_def ListingIn_model_dump_def)
  have "map_of ?d ''_id'' = Some (VOid (Oid (of_nat (next_oid st))))" by simp
  moreover have "map_of ?d ''player_id'' = Some (VStr (listing_player_id l))"
    by (simp add: ListingIn_model_dump_def)
  moreover have "map_of ?d ''from_club_id'' = Some (opt VStr (listing_from_club_id l))"
    by (simp add: ListingIn_model_dump_def)
  moreover have "\<forall>F. list_all (\<lambda>f. \<exists>j. get_field f ''_id'' = VOid j) F \<longrightarrow>
            map_of (lookup F ''player_id'' ''_id'' ''player'' ?d) ''player'' = Some (VList []) \<and>
            map_of (lookup F ''from_club_id'' ''_id'' ''from_club'' ?d) ''from_club'' =
              Some (VList [])"
    by (intro allI impI conjI lookup_no_match) (simp_all only: g str_never_matches_oid not_False_eq_True)
  ultimately show "\<exists>i d. collections (snd (create_listing l st)) ''transferlisting'' =
               collections st ''transferlisting'' @ [d] \<and>
         map_of d ''_id'' = Some (VOid i) \<and>
         map_of d ''player_id'' = Some (VStr (listing_player_id l)) \<and>
         map_of d ''from_club_id'' = Some (opt VStr (listing_from_club_id l)) \<and>
         (\<forall>F. list_all (\<lambda>f. \<exists>j. get_field f ''_id'' = VOid j) F \<longrightarrow>
            map_of (lookup F ''player_id'' ''_id'' ''player'' d) ''player'' = Some (VList []) \<and>
            map_of (lookup F ''from_club_id'' ''_id'' ''from_club'' d) ''from_club'' =
              Some (VList []))"
    using c by blast
next
  assume "fst (create_offer f st) = Inr r'"
  from create_offer_accepted [OF this]
  have c: "collections (snd (create_offer f st)) ''transferoffer'' =
      collections st ''transferoffer'' @
        [(''_id'', VOid (Oid (of_nat (next_oid st)))) # OfferIn_model_dump f]"
    by simp
  let ?d = "(''_id'', VOid (Oid (of_nat (next_oid st)))) # OfferIn_model_dump f"
  have g: "get_field ?d ''listing_id'' = VStr (offer_listing_id f)"
    "get_field ?d ''club_id'' = VStr (offer_club_id f)"
    by (simp_all add: get_field_def OfferIn_model_dump_def)
  have "map_of ?d ''_id'' = Some (VOid (Oid (of_nat (next_oid st))))" by simp
  moreover have "map_of ?d ''listing_id'' = Some (VStr (offer_listing_id f))"
    by (simp add: OfferIn_model_dump_def)
  moreover have "map_of ?d ''club_id'' = Some (VStr (offer_club_id f))"
    by (simp add: OfferIn_model_dump_def)
  moreover have "\<forall>F. list_all (\<lambda>f. \<exists>j. get_field f ''_id'' = VOid j) F \<longrightarrow>
            map_of (lookup F ''listing_id'' ''_id'' ''listing'' ?d) ''listing'' = Some (VList []) \<and>
            map_of (lookup F ''club_id'' ''_id'' ''club'' ?d) ''club'' = Some (VList [])"
    by (intro allI impI conjI lookup_no_match) (simp_all only: g str_never_matches_oid not_False_eq_True)
  ultimately show "\<exists>i d. collections (snd (create_offer f st)) ''transferoffer'' =
               collections st ''transferoffer'' @ [d] \<and>
         map_of d ''_id'' = Some (VOid i) \<and>
         map_of d ''listing_id'' = Some (VStr (offer_listing_id f)) \<and>
         map_of d ''club_id'' = Some (VStr (offer_club_id f)) \<and>
         (\<forall>F. list_all (\<lambda>f. \<exists>j. get_field f ''_id'' = VOid j) F \<longrightarrow>
            map_of (lookup F ''listing_id'' ''_id'' ''listing'' d) ''listing'' = Some (VList []) \<and>
            map_of (lookup F ''club_id'' ''_id'' ''club'' d) ''club'' = Some (VList []))"
    using c by blast
qed

lemma players_cp_have_oids:
  "list_all (\<lambda>f. \<exists>j. get_field f ''_id'' = VOid j) (collections store_cp ''player'')"
  by (simp add: store_cp_eq get_field_def)

lemma listings_cpl_have_oids:
  "list_all (\<lambda>f. \<exists>j. get_field f ''_id'' = VOid j) (collections store_cpl ''transferlisting'')"
  by (simp add: store_cpl_eq get_field_def)

theorem references_stored_as_strings_witness:
  "fst (create_listing (listing_of (str_oid (Oid 2)) (Some (str_oid (Oid 1)))) store_cp) =
     Inr (IdModel (str_oid (Oid 3))) \<and>
   map_of (last (collections
       (snd (create_listing (listing_of (str_oid (Oid 2)) (Some (str_oid (Oid 1)))) store_cp))
       ''transferlisting'')) ''player_id'' = Some (VStr (str_oid (Oid 2))) \<and>
   map_of (lookup (collections store_cp ''player'') ''player_id'' ''_id'' ''player''
       (last (collections
         (snd (create_listing (listing_of (str_oid (Oid 2)) (Some (str_oid (Oid 1)))) store_cp))
         ''transferlisting''))) ''player'' = Some (VList []) \<and>
   fst (create_offer (offer_of (str_oid (Oid 3)) (str_oid (Oid 1))) store_cpl) =
     Inr (IdModel (str_oid (Oid 4))) \<and>
   map_of (last (collections
       (snd (create_offer (offer_of (str_oid (Oid 3)) (str_oid (Oid 1))) store_cpl))
       ''transferoffer'')) ''listing_id'' = Some (VStr (str_oid (Oid 3))) \<and>
   map_of (lookup (collections store_cpl ''transferlisting'') ''listing_id'' ''_id'' ''listing''
       (last (collections
         (snd (create_offer (offer_of (str_oid (Oid 3)) (str_oid (Oid 1))) store_cpl))
         ''transferoffer''))) ''listing'' = Some (VList [])"
proof -
  let ?l = "listing_of (str_oid (Oid 2)) (Some (str_oid (Oid 1)))"
  let ?f = "offer_of (str_oid (Oid 3)) (str_oid (Oid 1))"
  have pl: "listing_player_id ?l = str_oid (Oid 2)"
    by (simp add: listing_of_def ListingIn_init_def del: str_oid.simps)
  have fl: "offer_listing_id ?f = str_oid (Oid 3)"
    by (simp add: offer_of_def OfferIn_init_def del: str_oid.simps)
  note t = references_stored_as_strings
  from t [of ?l store_cp "IdModel (str_oid (Oid 3))", THEN conjunct1, THEN mp,
          OF create_listing_cp_fst]
  obtain i d where d: "collections (snd (create_listing ?l store_cp)) ''transferlisting'' =
        collections store_cp ''transferlisting'' @ [d]"
    and d1: "map_of d ''player_id'' = Some (VStr (listing_player_id ?l))"
    and d2: "\<forall>F. list_all (\<lambda>f. \<exists>j. get_field f ''_id'' = VOid j) F \<longrightarrow>
            map_of (lookup F ''player_id'' ''_id'' ''player'' d) ''player'' = Some (VList []) \<and>
            map_of (lookup F ''from_club_id'' ''_id'' ''from_club'' d) ''from_club'' =
              Some (VList [])"
    by blast
  have ld: "last (collections (snd (create_listing ?l store_cp)) ''transferlisting'') = d"
    unfolding d by simp
  from t [of _ store_cpl _ ?f "IdModel (str_oid (Oid 4))", THEN conjunct2, THEN mp,
          OF create_offer_cpl_fst]
  obtain i' e where e: "collections (snd (create_offer ?f store_cpl)) ''transferoffer'' =
        collections store_cpl ''transferoffer'' @ [e]"
    and e1: "map_of e ''listing_id'' = Some (VStr (offer_listing_id ?f))"
    and e2: "\<forall>F. list_all (\<lambda>f. \<exists>j. get_field f ''_id'' = VOid j) F \<longrightarrow>
            map_of (lookup F ''listing_id'' ''_id'' ''listing'' e) ''listing'' = Some (VList []) \<and>
            map_of (lookup F ''club_id'' ''_id'' ''club'' e) ''club'' = Some (VList [])"
    by blast
  have le: "last (collections (snd (create_offer ?f store_cpl)) ''transferoffer'') = e"
    unfolding e by simp
  show ?thesis
    unfolding ld le
    using d1 d2 e1 e2 players_cp_have_oids listings_cpl_have_oids
      create_listing_cp_fst create_offer_cpl_fst
    unfolding pl fl by blast
qed

theorem list_listings_pure_witness:
  "collections (snd (list_listings (\<lambda>v. []) joined_store)) = collections joined_store \<and>
   fst (list_listings (\<lambda>v. []) joined_store) = Inr [listing_response] \<and>
   fst (list_listings (\<lambda>v. []) (snd (list_listings (\<lambda>v. []) joined_store))) =
     Inr [listing_response]"
proof -
  note t = list_listings_pure [of "\<lambda>v. []" joined_store]
  from t have c: "collections (snd (list_listings (\<lambda>v. []) joined_store)) =
      collections joined_store"
    by blast
  from t have "\<forall>st2. collections st2 = collections joined_store \<longrightarrow>
      fst (list_listings (\<lambda>v. []) st2) = fst (list_listings (\<lambda>v. []) joined_store)"
    by blast
  with c have "fst (list_listings (\<lambda>v. []) (snd (list_listings (\<lambda>v. []) joined_store))) =
      fst (list_listings (\<lambda>v. []) joined_store)"
    by blast
  with c show ?thesis
    by (simp only: joined_response simp_thms)
qed

end
